(* ===== verification/Prelude.thy ===== *)
theory Prelude
  imports Main
begin

text \<open>
  Shared vocabulary of the development: the names of the model's basic types, the
  collections of rules the component proofs use, and generic facts about the list
  operations that stand for the Prisma queries (\<open>findFirst\<close> is \<^term>\<open>List.find\<close>
  over a table, \<open>findMany\<close> is the table itself) and for the JavaScript string and
  array operations the code relies on (\<open>String.prototype.split\<close>, indexing an array
  out of range).
\<close>

named_theorems model_defs \<open>definitions of the model unfolded by the component proofs\<close>
named_theorems query_simps \<open>equations describing the results of the modelled queries\<close>

type_synonym js_id = int
  \<comment> \<open>a Prisma \<open>Int\<close> column read into a JavaScript number; every id of the schema\<close>
type_synonym timestamp = int
  \<comment> \<open>a Prisma \<open>DateTime\<close>, as milliseconds since the epoch\<close>

subsection \<open>JavaScript array indexing\<close>

text \<open>
  \<open>xs[i]\<close> in JavaScript is \<open>undefined\<close> out of range; \<^term>\<open>None\<close> plays
  \<open>undefined\<close> here, so that the model never reads an unspecified \<open>xs ! i\<close>.
\<close>

fun js_index :: "'a list \<Rightarrow> nat \<Rightarrow> 'a option" where
  "js_index [] i = None"
| "js_index (x # xs) 0 = Some x"
| "js_index (x # xs) (Suc i) = js_index xs i"

subsection \<open>JavaScript \<open>String.prototype.split\<close> on a one-character separator\<close>

text \<open>
  \<open>s.split(c)\<close> cuts \<open>s\<close> at every occurrence of \<open>c\<close> and keeps the empty pieces:
  \<open>"a  b".split(" ")\<close> is \<open>["a", "", "b"]\<close> and \<open>"".split(" ")\<close> is \<open>[""]\<close>.
  The recursion keeps the piece being read as an accumulator.
\<close>

fun js_split_acc :: "char \<Rightarrow> string \<Rightarrow> string \<Rightarrow> string list" where
  "js_split_acc c acc [] = [acc]"
| "js_split_acc c acc (x # xs) =
     (if x = c then acc # js_split_acc c [] xs else js_split_acc c (acc @ [x]) xs)"

definition js_split :: "char \<Rightarrow> string \<Rightarrow> string list" where
  "js_split c s = js_split_acc c [] s"

subsection \<open>Generic facts\<close>

lemma js_index_Some_iff [simp]: "js_index xs i = Some x \<longleftrightarrow> i < length xs \<and> xs ! i = x"
  by (induction xs i rule: js_index.induct) auto

lemma js_index_None_iff [simp]: "js_index xs i = None \<longleftrightarrow> length xs \<le> i"
  by (induction xs i rule: js_index.induct) auto

lemma js_split_acc_no_sep:
  "c \<notin> set xs \<Longrightarrow> js_split_acc c acc (xs @ ys) = js_split_acc c (acc @ xs) ys"
  by (induction xs arbitrary: acc) auto

lemma js_split_acc_sep:
  "c \<notin> set xs \<Longrightarrow> js_split_acc c acc (xs @ c # ys) = (acc @ xs) # js_split_acc c [] ys"
  by (simp add: js_split_acc_no_sep)

lemma js_split_acc_last: "c \<notin> set xs \<Longrightarrow> js_split_acc c acc xs = [acc @ xs]"
  using js_split_acc_no_sep [of c xs acc "[]"] by simp

text \<open>Splitting two separator-free words joined by one separator gives the two words.\<close>

lemma js_split_two:
  assumes "c \<notin> set a" and "c \<notin> set b"
  shows "js_split c (a @ c # b) = [a, b]"
  using assms by (simp add: js_split_def js_split_acc_sep js_split_acc_last)

lemma js_split_nonempty [simp]: "js_split_acc c acc s \<noteq> []"
  by (induction c acc s rule: js_split_acc.induct) auto

lemma dropWhile_none: "\<forall>x \<in> set xs. \<not> P x \<Longrightarrow> dropWhile P xs = xs"
  by (induction xs) auto

text \<open>\<open>findFirst\<close> returns a row of the table that satisfies the filter, the first one.\<close>

lemma find_SomeD [dest]: "List.find P xs = Some x \<Longrightarrow> x \<in> set xs \<and> P x"
  by (induction xs) (auto split: if_splits)

lemma find_first_match:
  "List.find P (xs @ x # ys) = Some x" if "\<forall>y \<in> set xs. \<not> P y" and "P x"
  using that by (induction xs) auto

text \<open>On a column that is unique in the table, \<open>findFirst\<close> by that column finds the row.\<close>

lemma find_unique_key:
  assumes "distinct (map k xs)" and "x \<in> set xs"
  shows "List.find (\<lambda>y. k y = k x) xs = Some x"
  using assms
proof (induction xs)
  case Nil
  then show ?case by simp
next
  case (Cons y ys)
  show ?case
  proof (cases "y = x")
    case True
    then show ?thesis by simp
  next
    case False
    with Cons.prems have "x \<in> set ys" and "k y \<noteq> k x"
      by (auto simp: image_iff)
    with Cons show ?thesis by simp
  qed
qed

lemma distinct_key_eq:
  "distinct (map k xs) \<Longrightarrow> x \<in> set xs \<Longrightarrow> y \<in> set xs \<Longrightarrow> k x = k y \<Longrightarrow> x = y"
  by (auto simp: distinct_map inj_on_def)

lemma find_unique_key_eq:
  assumes "distinct (map k xs)"
  shows "List.find (\<lambda>y. k y = v) xs = Some x \<longleftrightarrow> x \<in> set xs \<and> k x = v"
  using assms find_unique_key [OF assms, of x] by auto

end
