(* ===== verification/Store.thy ===== *)
theory Store
  imports Prelude "HOL-Library.Word"
begin

text \<open>
  The relational store behind the program. The Prisma schema is not part of the
  repository's sources; its models are taken from the data model of the specification
  (User, Enrollment with its Address rows, TicketType, Ticket, Payment, Session, Hotel,
  Room) with the columns the code and the tests read. Each model is a record, each
  table a list of rows in the store's native order (the order \<open>findMany\<close> returns and
  in which \<open>findFirst\<close> without \<open>orderBy\<close> scans), and each \<open>@default(autoincrement())\<close>
  id column draws from a sequence of its table. \<^term>\<open>wf_db\<close> is what the schema's
  keys and relations guarantee of every state of the store.
\<close>

datatype ticket_status = RESERVED | PAID

record user =
  user_id :: js_id
  user_email :: string
  user_password :: string

record session =
  session_id :: js_id
  session_userId :: js_id
  session_token :: string

record enrollment =
  enrollment_id :: js_id
  enrollment_name :: string
  enrollment_cpf :: string
  enrollment_birthday :: timestamp
  enrollment_phone :: string
  enrollment_userId :: js_id

record address =
  address_id :: js_id
  address_cep :: string
  address_street :: string
  address_city :: string
  address_enrollmentId :: js_id

record ticket_type =
  ticketType_id :: js_id
  ticketType_name :: string
  ticketType_price :: int
  ticketType_isRemote :: bool
  ticketType_includesHotel :: bool

record ticket =
  ticket_id :: js_id
  ticket_ticketTypeId :: js_id
  ticket_enrollmentId :: js_id
  ticket_status :: ticket_status

record payment =
  payment_id :: js_id
  payment_ticketId :: js_id
  payment_value :: int

record hotel =
  hotel_id :: js_id
  hotel_name :: string
  hotel_image :: string
  hotel_createdAt :: timestamp
  hotel_updatedAt :: timestamp

record room =
  room_id :: js_id
  room_name :: string
  room_capacity :: int
  room_hotelId :: js_id
  room_createdAt :: timestamp
  room_updatedAt :: timestamp

text \<open>A hotel read with \<open>include: { Rooms: true }\<close>: the hotel's columns and its rooms.\<close>

record hotel_with_rooms = hotel +
  Rooms :: "room list"

datatype table = TUser | TSession | TEnrollment | TAddress | TTicketType | TTicket
  | TPayment | THotel | TRoom

record db =
  users :: "user list"
  sessions :: "session list"
  enrollments :: "enrollment list"
  addresses :: "address list"
  ticketTypes :: "ticket_type list"
  tickets :: "ticket list"
  payments :: "payment list"
  hotels :: "hotel list"
  rooms :: "room list"
  seq :: "table \<Rightarrow> js_id"
  clock :: timestamp

text \<open>
  The store the tests start from: \<open>cleanDb\<close> deletes every row. Sequences are not reset
  by \<open>deleteMany\<close>; the model starts them at 1, as a fresh database does.
\<close>

definition empty_db :: db where
  "empty_db = \<lparr>users = [], sessions = [], enrollments = [], addresses = [], ticketTypes = [],
     tickets = [], payments = [], hotels = [], rooms = [], seq = (\<lambda>_. 1), clock = 0\<rparr>"

definition int4_max :: int where
  \<comment> \<open>the largest value of Postgres \<open>integer\<close> (INT4), the column type of Prisma's \<open>Int\<close>\<close>
  "int4_max = 2 ^ 31 - 1"

definition in_int4 :: "int \<Rightarrow> bool" where
  \<comment> \<open>the values an INT4 column holds and an INT4 query parameter may take\<close>
  "in_int4 i \<longleftrightarrow> - (2 ^ 31) \<le> i \<and> i \<le> int4_max"

subsection \<open>Keys and relations of the schema\<close>

text \<open>
  Ids are positive, unique and below their table's sequence; every sequence lies between
  1 and one past \<^term>\<open>int4_max\<close> (it starts at 1 and \<open>nextval\<close> fails beyond the INT4
  range), so every id fits its INT4 column; \<open>Enrollment.userId\<close> is unique (one enrollment
  per user); every foreign key names an existing row.
\<close>

definition ids_ok :: "('r \<Rightarrow> js_id) \<Rightarrow> 'r list \<Rightarrow> js_id \<Rightarrow> bool" where
  "ids_ok k xs s \<longleftrightarrow> distinct (map k xs) \<and> (\<forall>x \<in> set xs. 0 < k x \<and> k x < s)"

definition refs_ok :: "('r \<Rightarrow> js_id) \<Rightarrow> 'r list \<Rightarrow> js_id set \<Rightarrow> bool" where
  "refs_ok fk xs targets \<longleftrightarrow> (\<forall>x \<in> set xs. fk x \<in> targets)"

definition wf_db :: "db \<Rightarrow> bool" where
  "wf_db d \<longleftrightarrow>
     (\<forall>t. 0 < seq d t \<and> seq d t \<le> int4_max + 1) \<and>
     ids_ok user_id (users d) (seq d TUser) \<and>
     ids_ok session_id (sessions d) (seq d TSession) \<and>
     ids_ok enrollment_id (enrollments d) (seq d TEnrollment) \<and>
     ids_ok address_id (addresses d) (seq d TAddress) \<and>
     ids_ok ticketType_id (ticketTypes d) (seq d TTicketType) \<and>
     ids_ok ticket_id (tickets d) (seq d TTicket) \<and>
     ids_ok payment_id (payments d) (seq d TPayment) \<and>
     ids_ok hotel_id (hotels d) (seq d THotel) \<and>
     ids_ok room_id (rooms d) (seq d TRoom) \<and>
     distinct (map enrollment_userId (enrollments d)) \<and>
     refs_ok session_userId (sessions d) (user_id ` set (users d)) \<and>
     refs_ok enrollment_userId (enrollments d) (user_id ` set (users d)) \<and>
     refs_ok address_enrollmentId (addresses d) (enrollment_id ` set (enrollments d)) \<and>
     refs_ok ticket_enrollmentId (tickets d) (enrollment_id ` set (enrollments d)) \<and>
     refs_ok ticket_ticketTypeId (tickets d) (ticketType_id ` set (ticketTypes d)) \<and>
     refs_ok payment_ticketId (payments d) (ticket_id ` set (tickets d)) \<and>
     refs_ok room_hotelId (rooms d) (hotel_id ` set (hotels d))"

lemma wf_empty_db: "wf_db empty_db"
  by (simp add: wf_db_def empty_db_def ids_ok_def refs_ok_def int4_max_def)

lemma ids_ok_fresh: "ids_ok k xs s \<Longrightarrow> k x = s \<Longrightarrow> 0 < s \<Longrightarrow> ids_ok k (xs @ [x]) (s + 1)"
  by (force simp: ids_ok_def)

lemma refs_ok_snoc [simp]:
  "refs_ok fk (xs @ [x]) T \<longleftrightarrow> refs_ok fk xs T \<and> fk x \<in> T"
  by (auto simp: refs_ok_def)

lemma refs_ok_mono: "refs_ok fk xs T \<Longrightarrow> T \<subseteq> T' \<Longrightarrow> refs_ok fk xs T'"
  by (auto simp: refs_ok_def)

text \<open>Every id of a well-formed store fits its INT4 column, a signed 32-bit value.\<close>

lemma in_int4_sint: "in_int4 i \<longleftrightarrow> sint (word_of_int i :: 32 word) = i"
  by (auto simp: in_int4_def int4_max_def sint_sbintrunc' signed_take_bit_int_eq_self_iff)

lemma ids_ok_int4:
  assumes "ids_ok k xs s" and "s \<le> int4_max + 1" and "x \<in> set xs"
  shows "in_int4 (k x)"
  using assms by (auto simp: ids_ok_def in_int4_def int4_max_def)

lemma wf_db_hotel_int4: "wf_db d \<Longrightarrow> h \<in> set (hotels d) \<Longrightarrow> in_int4 (hotel_id h)"
  by (rule ids_ok_int4 [of hotel_id "hotels d" "seq d THotel"]) (simp_all add: wf_db_def)

lemma ids_ok_distinct: "ids_ok k xs s \<Longrightarrow> distinct (map k xs)"
  by (simp add: ids_ok_def)

end
