(* ===== verification/Lookups.thy ===== *)
theory Lookups
  imports Store
begin

text \<open>
  The two leaf lookups the hotel service calls. Their repositories
  (\<open>@/repositories/enrollment-repository\<close>, \<open>@/repositories/ticket-repository\<close>) are not
  among the repository's sources; they are modelled from the collaborator contracts of
  the specification: \<open>findWithAddressByUserId(userId)\<close> is the user's enrollment with
  its address rows, or absent; \<open>findTicketByEnrollmentId(enrollmentId)\<close> is the
  enrollment's ticket with its ticket type, or absent. Both are \<open>findFirst\<close> queries.
\<close>

definition findWithAddressByUserId :: "db \<Rightarrow> js_id \<Rightarrow> (enrollment \<times> address list) option" where
  "findWithAddressByUserId d userId =
     map_option (\<lambda>e. (e, filter (\<lambda>a. address_enrollmentId a = enrollment_id e) (addresses d)))
       (List.find (\<lambda>e. enrollment_userId e = userId) (enrollments d))"

definition findTicketByEnrollmentId :: "db \<Rightarrow> js_id \<Rightarrow> (ticket \<times> ticket_type) option" where
  "findTicketByEnrollmentId d enrollmentId =
     (case List.find (\<lambda>t. ticket_enrollmentId t = enrollmentId) (tickets d) of
        None \<Rightarrow> None
      | Some t \<Rightarrow> map_option (\<lambda>tt. (t, tt))
          (List.find (\<lambda>tt. ticketType_id tt = ticket_ticketTypeId t) (ticketTypes d)))"

subsection \<open>What the lookups return\<close>

text \<open>
  On a well-formed store the enrollment lookup finds the user's only enrollment, with
  exactly the address rows that point at it.
\<close>

lemma findWithAddressByUserId_Some_iff:
  assumes "wf_db d"
  shows "findWithAddressByUserId d u = Some (e, as) \<longleftrightarrow>
    e \<in> set (enrollments d) \<and> enrollment_userId e = u \<and>
    as = filter (\<lambda>a. address_enrollmentId a = enrollment_id e) (addresses d)"
proof -
  from assms have "distinct (map enrollment_userId (enrollments d))"
    by (simp add: wf_db_def)
  then show ?thesis
    by (auto simp: findWithAddressByUserId_def find_unique_key_eq)
qed

lemma findWithAddressByUserId_None_iff [query_simps]:
  "findWithAddressByUserId d u = None \<longleftrightarrow> (\<forall>e \<in> set (enrollments d). enrollment_userId e \<noteq> u)"
  by (auto simp: findWithAddressByUserId_def find_None_iff)

lemma findWithAddressByUserId_SomeD [query_simps]:
  "findWithAddressByUserId d u = Some (e, as) \<Longrightarrow> e \<in> set (enrollments d) \<and> enrollment_userId e = u"
  by (auto simp: findWithAddressByUserId_def)

text \<open>
  The ticket lookup finds the first ticket of the enrollment and that ticket's type; on
  a well-formed store the type always exists, so the lookup is absent exactly when the
  enrollment has no ticket.
\<close>

lemma findTicketByEnrollmentId_SomeD [query_simps]:
  "findTicketByEnrollmentId d eid = Some (t, tt) \<Longrightarrow>
     t \<in> set (tickets d) \<and> ticket_enrollmentId t = eid \<and>
     tt \<in> set (ticketTypes d) \<and> ticketType_id tt = ticket_ticketTypeId t"
  by (auto simp: findTicketByEnrollmentId_def split: option.splits)

lemma findTicketByEnrollmentId_None_iff:
  assumes "wf_db d"
  shows "findTicketByEnrollmentId d eid = None \<longleftrightarrow> (\<forall>t \<in> set (tickets d). ticket_enrollmentId t \<noteq> eid)"
proof
  assume none: "findTicketByEnrollmentId d eid = None"
  show "\<forall>t \<in> set (tickets d). ticket_enrollmentId t \<noteq> eid"
  proof (cases "List.find (\<lambda>t. ticket_enrollmentId t = eid) (tickets d)")
    case None
    then show ?thesis by (auto simp: find_None_iff)
  next
    case (Some t)
    then have "t \<in> set (tickets d)" by auto
    with assms have "ticket_ticketTypeId t \<in> ticketType_id ` set (ticketTypes d)"
      by (auto simp: wf_db_def refs_ok_def)
    then have "List.find (\<lambda>tt. ticketType_id tt = ticket_ticketTypeId t) (ticketTypes d) \<noteq> None"
      by (auto simp: find_None_iff)
    with none Some show ?thesis by (simp add: findTicketByEnrollmentId_def)
  qed
next
  assume "\<forall>t \<in> set (tickets d). ticket_enrollmentId t \<noteq> eid"
  then have "List.find (\<lambda>t. ticket_enrollmentId t = eid) (tickets d) = None"
    by (auto simp: find_None_iff)
  then show "findTicketByEnrollmentId d eid = None"
    by (simp add: findTicketByEnrollmentId_def)
qed

end
