(* ===== verification/JsRuntime.thy ===== *)
theory JsRuntime
  imports Prelude
begin

text \<open>
  The parts of the JavaScript runtime the code's behaviour depends on.
  \<^item> An \<open>async\<close> function returns a promise at once; whatever it throws becomes the
    promise's rejection. A promise is modelled by the value it settles with,
    \<open>('e, 'a) promise\<close>, whose \<open>Inl\<close> is a rejection.
  \<^item> A promise is an object, and every object is truthy: \<open>!p\<close> is false for every
    promise \<open>p\<close>, settled or not. \<open>null\<close> is falsy.
  \<^item> The errors the code raises or meets, as a datatype.
  \<^item> JSON values, for what Express sends (\<open>res.send(obj)\<close> is \<open>JSON.stringify(obj)\<close>).
\<close>

datatype ('e, 'a) promise = Promise "'e + 'a"

definition async_return :: "'e + 'a \<Rightarrow> ('e, 'a) promise" where
  \<comment> \<open>the promise an \<open>async\<close> function returns: its result, or what it threw\<close>
  "async_return r = Promise r"

definition resolved :: "'a \<Rightarrow> ('e, 'a) promise" where
  \<comment> \<open>the promise of an \<open>async\<close> call that returns \<open>x\<close>\<close>
  "resolved x = Promise (Inr x)"

fun await :: "('e, 'a) promise \<Rightarrow> 'e + 'a" where
  "await (Promise r) = r"

fun rejection :: "('e, 'a) promise \<Rightarrow> 'e option" where
  "rejection (Promise (Inl e)) = Some e"
| "rejection (Promise (Inr _)) = None"

text \<open>Truthiness (ECMAScript ToBoolean) of the values the code tests with \<open>!\<close>.\<close>

fun truthy_promise :: "('e, 'a) promise \<Rightarrow> bool" where
  "truthy_promise (Promise _) = True"

fun truthy_nullable :: "'a option \<Rightarrow> bool" where
  "truthy_nullable None = False"
| "truthy_nullable (Some _) = True"

text \<open>
  Errors. \<open>NotFoundError\<close> is the object \<open>notFoundError()\<close> of \<open>@/errors\<close> builds;
  \<open>TypeError\<close> is what reading a property of \<open>null\<close> throws
  (\<open>Cannot read properties of null\<close>); \<open>PrismaValidationError\<close> is what the Prisma
  client throws when a query argument is not of its column's type (a \<open>NaN\<close> or a
  fraction for an \<open>Int\<close> id); \<open>PrismaRangeError\<close> is what the query rejects with when an
  integer argument does not fit the INT4 column (\<open>Unable to fit integer value ... into
  an INT4\<close>); \<open>PrismaConnectionError\<close> is what a query rejects with when the database
  cannot be reached.
\<close>

datatype js_error = NotFoundError | TypeError | PrismaValidationError | PrismaRangeError
  | PrismaConnectionError

text \<open>
  A JavaScript number as the code uses it: an integer (every id of the schema), a
  number that is not an integer (a fraction or an infinity), or \<open>NaN\<close>, what
  \<open>Number\<close> gives for a string that is not a numeral.
\<close>

datatype js_number = JsInt int | JsNonInt | JsNaN

text \<open>
  Sequencing inside an \<open>async\<close> body: a thrown error (an \<open>Inl\<close>) skips the rest of
  the body, as \<open>throw\<close> and a rejected \<open>await\<close> do.
\<close>

fun js_bind :: "'e + 'a \<Rightarrow> ('a \<Rightarrow> 'e + 'b) \<Rightarrow> 'e + 'b" where
  "js_bind (Inl e) f = Inl e"
| "js_bind (Inr x) f = f x"

subsection \<open>JSON\<close>

text \<open>
  \<open>JDate t\<close> is the ISO-8601 string \<open>Date.prototype.toJSON\<close> gives for the time \<open>t\<close>;
  the calendar formatting itself is not modelled.
\<close>

datatype json = JNull | JBool bool | JNum int | JStr string | JDate timestamp
  | JArr "json list" | JObj "(string \<times> json) list"

text \<open>
  \<open>JSON.stringify\<close> of a promise: a promise has no own enumerable property, so it is
  the empty object \<open>{}\<close>, whatever it settles with.
\<close>

fun json_of_promise :: "('e, 'a) promise \<Rightarrow> json" where
  "json_of_promise (Promise _) = JObj []"

lemma await_async_return [simp]: "await (async_return r) = r"
  by (simp add: async_return_def)

lemma await_resolved [simp]: "await (resolved x) = Inr x"
  by (simp add: resolved_def)

lemma truthy_promise_always [simp]: "truthy_promise p"
  by (cases p) simp

lemma json_of_promise_empty [simp]: "json_of_promise p = JObj []"
  by (cases p) simp

lemma rejection_async_return [simp]:
  "rejection (async_return r) = (case r of Inl e \<Rightarrow> Some e | Inr _ \<Rightarrow> None)"
  by (cases r) (simp_all add: async_return_def)

lemma js_bind_Inr_right [simp]: "js_bind x Inr = x"
  by (cases x) simp_all

lemma js_bind_eq_Inr_iff: "js_bind x f = Inr y \<longleftrightarrow> (\<exists>z. x = Inr z \<and> f z = Inr y)"
  by (cases x) simp_all

lemma truthy_nullable_iff [simp]: "truthy_nullable x \<longleftrightarrow> x \<noteq> None"
  by (cases x) simp_all

lemma js_bind_Inr_comp: "js_bind x (\<lambda>y. Inr (f y)) = map_sum id f x"
  by (cases x) simp_all

end
