(* ===== verification/HotelsRepository.thy ===== *)
theory HotelsRepository
  imports Store JsRuntime
begin

text \<open>
  \<open>src/repositories/hotels-repository/index.ts\<close>: two Prisma reads.
  \<open>getHotels\<close> is \<open>prisma.hotel.findMany()\<close>: every hotel row, unfiltered, in the
  store's order. \<open>getRoomsHotelId(hotelId)\<close> is \<open>prisma.hotel.findFirst\<close> with
  \<open>where: { id: hotelId }\<close> and \<open>include: { Rooms: true }\<close>: the first hotel with that
  id together with the rooms whose \<open>hotelId\<close> is that hotel's id, or \<open>null\<close>.

  The id argument is a JavaScript number (\<open>js_number\<close>): the controller computes it
  with \<open>Number(req.params.hotelId)\<close>, which can be \<open>NaN\<close> or a fraction. Prisma
  validates the argument against the \<open>Int\<close> column and rejects a value that is not an
  integer with a validation error before any read, and an integer outside the INT4
  range of the column with a range error.
\<close>

definition with_rooms :: "hotel \<Rightarrow> room list \<Rightarrow> hotel_with_rooms" where
  "with_rooms h rs =
     \<lparr>hotel_id = hotel_id h, hotel_name = hotel_name h, hotel_image = hotel_image h,
      hotel_createdAt = hotel_createdAt h, hotel_updatedAt = hotel_updatedAt h, Rooms = rs\<rparr>"

definition hotelsRepository_getHotels :: "db \<Rightarrow> (js_error, hotel list) promise" where
  "hotelsRepository_getHotels d = resolved (hotels d)"

definition rooms_of :: "db \<Rightarrow> js_id \<Rightarrow> room list" where
  \<comment> \<open>the relation \<open>Hotel.Rooms\<close>: the rooms whose \<open>hotelId\<close> is the hotel's id\<close>
  "rooms_of d hid = filter (\<lambda>r. room_hotelId r = hid) (rooms d)"

fun hotelsRepository_getRoomsHotelId ::
  "db \<Rightarrow> js_number \<Rightarrow> (js_error, hotel_with_rooms option) promise" where
  "hotelsRepository_getRoomsHotelId d (JsInt hotelId) =
     (if \<not> in_int4 hotelId then async_return (Inl PrismaRangeError)
      else resolved (map_option (\<lambda>h. with_rooms h (rooms_of d (hotel_id h)))
        (List.find (\<lambda>h. hotel_id h = hotelId) (hotels d))))"
| "hotelsRepository_getRoomsHotelId d JsNonInt = async_return (Inl PrismaValidationError)"
| "hotelsRepository_getRoomsHotelId d JsNaN = async_return (Inl PrismaValidationError)"

record hotels_repository =
  repo_getHotels :: "db \<Rightarrow> (js_error, hotel list) promise"
  repo_getRoomsHotelId :: "db \<Rightarrow> js_number \<Rightarrow> (js_error, hotel_with_rooms option) promise"

definition hotelsRepository :: hotels_repository where
  \<comment> \<open>the module's export \<open>{ getHotels, getRoomsHotelId }\<close>, through which the service calls\<close>
  "hotelsRepository =
     \<lparr>repo_getHotels = hotelsRepository_getHotels, repo_getRoomsHotelId = hotelsRepository_getRoomsHotelId\<rparr>"

subsection \<open>Functional behaviour\<close>

lemma hotelsRepository_ops [simp]:
  "repo_getHotels hotelsRepository = hotelsRepository_getHotels"
  "repo_getRoomsHotelId hotelsRepository = hotelsRepository_getRoomsHotelId"
  by (simp_all add: hotelsRepository_def)


lemma with_rooms_hotel_id [simp]: "hotel_id (with_rooms h rs) = hotel_id h"
  and with_rooms_Rooms [simp]: "Rooms (with_rooms h rs) = rs"
  and with_rooms_hotel_name [simp]: "hotel_name (with_rooms h rs) = hotel_name h"
  by (simp_all add: with_rooms_def)

lemma with_rooms_eq_iff [simp]: "with_rooms h rs = with_rooms h' rs' \<longleftrightarrow> h = h' \<and> rs = rs'"
  by (cases h, cases h') (simp add: with_rooms_def)

lemma rooms_of_iff [simp]: "r \<in> set (rooms_of d hid) \<longleftrightarrow> r \<in> set (rooms d) \<and> room_hotelId r = hid"
  by (auto simp: rooms_of_def)

lemma getRoomsHotelId_JsInt [query_simps]:
  "await (hotelsRepository_getRoomsHotelId d (JsInt i)) =
     (if \<not> in_int4 i then Inl PrismaRangeError
      else Inr (map_option (\<lambda>h. with_rooms h (rooms_of d (hotel_id h)))
        (List.find (\<lambda>h. hotel_id h = i) (hotels d))))"
  by simp

text \<open>
  On a well-formed store (ids unique, each fitting INT4) the lookup by an INT4 id returns
  exactly the hotel with that id and all of its rooms, in the store's order, and
  \<open>null\<close> when no hotel has it; an id outside INT4 is rejected.
\<close>

lemma getRoomsHotelId_Some_iff:
  assumes "wf_db d"
  shows "await (hotelsRepository_getRoomsHotelId d (JsInt i)) = Inr (Some hr) \<longleftrightarrow>
    (\<exists>h \<in> set (hotels d). hotel_id h = i \<and> hr = with_rooms h (rooms_of d i))"
proof -
  from assms have "distinct (map hotel_id (hotels d))"
    by (simp add: wf_db_def ids_ok_def)
  moreover have "in_int4 i" if "h \<in> set (hotels d)" "hotel_id h = i" for h
    using wf_db_hotel_int4 [OF assms that(1)] that(2) by simp
  ultimately show ?thesis
    by (auto simp: find_unique_key_eq)
qed

lemma getRoomsHotelId_None_iff:
  "in_int4 i \<Longrightarrow> await (hotelsRepository_getRoomsHotelId d (JsInt i)) = Inr None \<longleftrightarrow>
    (\<forall>h \<in> set (hotels d). hotel_id h \<noteq> i)"
  by (auto simp: find_None_iff)

lemma getRoomsHotelId_out_of_range:
  "\<not> in_int4 i \<Longrightarrow> await (hotelsRepository_getRoomsHotelId d (JsInt i)) = Inl PrismaRangeError"
  by simp

end
