(* ===== verification/Examples.thy ===== *)
theory Examples
  imports Store
begin

text \<open>
  Concrete stores on which the theorems of the components are applied: one user with
  an enrollment, the three kinds of ticket type the tests create (in person with hotel,
  remote, in person without hotel), one ticket of a chosen type and status, and the
  hotel and room of the tests (\<open>Copacabana Pallace\<close>, room \<open>Cobertura\<close> of capacity 3).
\<close>

definition ex_user :: user where
  "ex_user = \<lparr>user_id = 1, user_email = ''user@drivent.com'', user_password = ''hash''\<rparr>"

definition ex_enrollment :: enrollment where
  "ex_enrollment = \<lparr>enrollment_id = 1, enrollment_name = ''Ana'', enrollment_cpf = ''12345678909'',
     enrollment_birthday = 0, enrollment_phone = ''(21) 98999-9999'', enrollment_userId = 1\<rparr>"

definition ex_ticket_types :: "ticket_type list" where
  "ex_ticket_types =
     [\<lparr>ticketType_id = 1, ticketType_name = ''hotel'', ticketType_price = 600,
        ticketType_isRemote = False, ticketType_includesHotel = True\<rparr>,
      \<lparr>ticketType_id = 2, ticketType_name = ''remote'', ticketType_price = 100,
        ticketType_isRemote = True, ticketType_includesHotel = False\<rparr>,
      \<lparr>ticketType_id = 3, ticketType_name = ''no hotel'', ticketType_price = 250,
        ticketType_isRemote = False, ticketType_includesHotel = False\<rparr>]"

definition ex_ticket :: "js_id \<Rightarrow> ticket_status \<Rightarrow> ticket" where
  "ex_ticket typeId st = \<lparr>ticket_id = 1, ticket_ticketTypeId = typeId, ticket_enrollmentId = 1,
     ticket_status = st\<rparr>"

definition ex_hotel :: hotel where
  "ex_hotel = \<lparr>hotel_id = 1, hotel_name = ''Copacabana Pallace'', hotel_image = ''https://img'',
     hotel_createdAt = 5, hotel_updatedAt = 5\<rparr>"

definition ex_room :: room where
  "ex_room = \<lparr>room_id = 1, room_name = ''Cobertura'', room_capacity = 3, room_hotelId = 1,
     room_createdAt = 6, room_updatedAt = 6\<rparr>"

text \<open>The store with the user's one ticket, of type \<open>typeId\<close> and status \<open>st\<close>.\<close>

definition ex_db :: "js_id \<Rightarrow> ticket_status \<Rightarrow> hotel list \<Rightarrow> room list \<Rightarrow> db" where
  "ex_db typeId st hs rs = empty_db\<lparr>users := [ex_user], enrollments := [ex_enrollment],
     ticketTypes := ex_ticket_types, tickets := [ex_ticket typeId st], hotels := hs, rooms := rs,
     seq := (\<lambda>_. 10)\<rparr>"

text \<open>The same user, enrolled, without a ticket.\<close>

definition ex_db_no_ticket :: db where
  "ex_db_no_ticket = empty_db\<lparr>users := [ex_user], enrollments := [ex_enrollment],
     ticketTypes := ex_ticket_types, seq := (\<lambda>_. 10)\<rparr>"

text \<open>
  The user's enrollment with two tickets: a \<open>RESERVED\<close> one first in the store's order,
  then a \<open>PAID\<close> one, both of the in-person type with hotel.
\<close>

definition ex_db_two_tickets :: db where
  "ex_db_two_tickets = (ex_db 1 RESERVED [ex_hotel] [])\<lparr>tickets :=
     [ex_ticket 1 RESERVED, (ex_ticket 1 PAID)\<lparr>ticket_id := 2\<rparr>]\<rparr>"

lemmas ex_defs = ex_db_two_tickets_def ex_db_def ex_db_no_ticket_def empty_db_def ex_user_def ex_enrollment_def
  ex_ticket_types_def ex_ticket_def ex_hotel_def ex_room_def

lemma wf_ex_db:
  "typeId \<in> {1, 2, 3} \<Longrightarrow> hs \<in> {[], [ex_hotel]} \<Longrightarrow> rs = [] \<or> (rs = [ex_room] \<and> hs = [ex_hotel]) \<Longrightarrow>
   wf_db (ex_db typeId st hs rs)"
  by (auto simp: wf_db_def ids_ok_def refs_ok_def int4_max_def ex_defs)

lemma wf_ex_db_no_ticket: "wf_db ex_db_no_ticket"
  by (simp add: wf_db_def ids_ok_def refs_ok_def int4_max_def ex_defs)

lemma wf_ex_db_two_tickets: "wf_db ex_db_two_tickets"
  by (simp add: wf_db_def ids_ok_def refs_ok_def int4_max_def ex_defs)

end
