(* ===== verification/HotelsService.thy ===== *)
theory HotelsService
  imports Lookups HotelsRepository Examples
begin

text \<open>
  \<open>src/services/hotels-service/index.ts\<close>: the entitlement check and the two reads it
  guards. Both operations are \<open>async\<close>; each is modelled as the promise it returns.

  The code does not await the enrollment lookup before testing it:
  \<open>const enroll = enrollmentRepository.findWithAddressByUserId(userId)\<close> is a pending
  promise, and \<open>if(!enroll)\<close> tests the promise, which is always truthy. The absence of
  an enrollment is met only at \<open>(await enroll).id\<close>, which reads \<open>id\<close> of \<open>null\<close> and
  throws a \<open>TypeError\<close>. The ticket test
  \<open>!ticket || ticket.TicketType.isRemote || !ticket.TicketType.includesHotel ||
  ticket.status === "RESERVED"\<close> is \<^term>\<open>ticket_rejected\<close>.
\<close>

definition ticket_rejected :: "(ticket \<times> ticket_type) option \<Rightarrow> bool" where
  "ticket_rejected ticket \<longleftrightarrow>
     \<not> truthy_nullable ticket \<or>
     (case ticket of
        None \<Rightarrow> False
      | Some (t, tt) \<Rightarrow>
          ticketType_isRemote tt \<or> \<not> ticketType_includesHotel tt \<or> ticket_status t = RESERVED)"

definition hotelsService_getHotels :: "db \<Rightarrow> js_id \<Rightarrow> (js_error, hotel list) promise" where
  "hotelsService_getHotels d userId = async_return
     (let enroll = (resolved (findWithAddressByUserId d userId) :: (js_error, _) promise) in
      if \<not> truthy_promise enroll then Inl NotFoundError
      else js_bind (await enroll) (\<lambda>enrolled.
        case enrolled of
          None \<Rightarrow> Inl TypeError
        | Some (e, _) \<Rightarrow>
            js_bind (await (resolved (findTicketByEnrollmentId d (enrollment_id e)))) (\<lambda>ticket.
              if ticket_rejected ticket then Inl NotFoundError
              else js_bind (await (repo_getHotels hotelsRepository d)) (\<lambda>hotels. Inr hotels))))"

definition hotelsService_getHotelId ::
  "db \<Rightarrow> js_id \<Rightarrow> js_number \<Rightarrow> (js_error, hotel_with_rooms option) promise" where
  "hotelsService_getHotelId d userId hotelId = async_return
     (let enroll = (resolved (findWithAddressByUserId d userId) :: (js_error, _) promise) in
      if \<not> truthy_promise enroll then Inl NotFoundError
      else js_bind (await enroll) (\<lambda>enrolled.
        case enrolled of
          None \<Rightarrow> Inl TypeError
        | Some (e, _) \<Rightarrow>
            js_bind (await (resolved (findTicketByEnrollmentId d (enrollment_id e)))) (\<lambda>ticket.
              if ticket_rejected ticket then Inl NotFoundError
              else js_bind (await (repo_getRoomsHotelId hotelsRepository d hotelId)) (\<lambda>hotels. Inr hotels))))"

record hotels_service =
  svc_getHotels :: "db \<Rightarrow> js_id \<Rightarrow> (js_error, hotel list) promise"
  svc_getHotelId :: "db \<Rightarrow> js_id \<Rightarrow> js_number \<Rightarrow> (js_error, hotel_with_rooms option) promise"

definition hotelsService :: hotels_service where
  \<comment> \<open>the module's export \<open>{ getHotels, getHotelId }\<close>, through which the controller calls\<close>
  "hotelsService = \<lparr>svc_getHotels = hotelsService_getHotels, svc_getHotelId = hotelsService_getHotelId\<rparr>"

subsection \<open>The entitlement gate and the entitlement of the specification\<close>

text \<open>
  The check is written out twice in the source. \<^term>\<open>entitlement_gate\<close> is that check
  once, as the specification's design notes ask, with the promise plumbing evaluated:
  both operations are the gate followed by their read (\<open>getHotels_gate\<close>,
  \<open>getHotelId_gate\<close> below).
\<close>

definition entitlement_gate :: "db \<Rightarrow> js_id \<Rightarrow> js_error + unit" where
  "entitlement_gate d u =
     (case findWithAddressByUserId d u of
        None \<Rightarrow> Inl TypeError
      | Some (e, _) \<Rightarrow>
          if ticket_rejected (findTicketByEnrollmentId d (enrollment_id e)) then Inl NotFoundError
          else Inr ())"

text \<open>
  The specification's entitlement: one of the user's enrollments has a ticket whose
  type is in person and includes the hotel, and the ticket is not \<open>RESERVED\<close>.
\<close>

definition ticket_qualifies :: "ticket \<Rightarrow> ticket_type \<Rightarrow> bool" where
  "ticket_qualifies t tt \<longleftrightarrow>
     \<not> ticketType_isRemote tt \<and> ticketType_includesHotel tt \<and> ticket_status t \<noteq> RESERVED"

definition enrolled :: "db \<Rightarrow> js_id \<Rightarrow> bool" where
  "enrolled d u \<longleftrightarrow> (\<exists>e \<in> set (enrollments d). enrollment_userId e = u)"

definition has_qualifying_ticket :: "db \<Rightarrow> enrollment \<Rightarrow> bool" where
  "has_qualifying_ticket d e \<longleftrightarrow>
     (\<exists>t \<in> set (tickets d). ticket_enrollmentId t = enrollment_id e \<and>
       (\<exists>tt \<in> set (ticketTypes d). ticketType_id tt = ticket_ticketTypeId t \<and>
          ticket_qualifies t tt))"

definition eligible :: "db \<Rightarrow> js_id \<Rightarrow> bool" where
  "eligible d u \<longleftrightarrow>
     (\<exists>e \<in> set (enrollments d). enrollment_userId e = u \<and> has_qualifying_ticket d e)"

text \<open>
  The code reads one ticket per enrollment (\<open>findFirst\<close>); the specification speaks of
  "the" ticket of an enrollment. Where an enrollment has several tickets, the first in
  the store's order decides.
\<close>

definition one_ticket_per_enrollment :: "db \<Rightarrow> bool" where
  "one_ticket_per_enrollment d \<longleftrightarrow> distinct (map ticket_enrollmentId (tickets d))"

text \<open>\<open>t\<close> is a ticket of an enrollment of user \<open>u\<close>, and \<open>tt\<close> is the row of its type.\<close>

definition ticket_of_user :: "db \<Rightarrow> js_id \<Rightarrow> ticket \<Rightarrow> ticket_type \<Rightarrow> bool" where
  "ticket_of_user d u t tt \<longleftrightarrow>
     (\<exists>e \<in> set (enrollments d). enrollment_userId e = u \<and> ticket_enrollmentId t = enrollment_id e) \<and>
     t \<in> set (tickets d) \<and> tt \<in> set (ticketTypes d) \<and> ticketType_id tt = ticket_ticketTypeId t"

subsection \<open>Gate lemmas\<close>

lemma hotelsService_ops [simp]:
  "svc_getHotels hotelsService = hotelsService_getHotels"
  "svc_getHotelId hotelsService = hotelsService_getHotelId"
  by (simp_all add: hotelsService_def)

lemma ticket_rejected_Some [simp]:
  "ticket_rejected (Some (t, tt)) \<longleftrightarrow> \<not> ticket_qualifies t tt"
  by (auto simp: ticket_rejected_def ticket_qualifies_def)

lemma ticket_rejected_None [simp]: "ticket_rejected None"
  by (simp add: ticket_rejected_def)

lemma getHotels_gate:
  "await (hotelsService_getHotels d u) = js_bind (entitlement_gate d u) (\<lambda>_. Inr (hotels d))"
  by (simp add: hotelsService_getHotels_def entitlement_gate_def hotelsRepository_getHotels_def
      split: option.splits)

lemma getHotelId_gate:
  "await (hotelsService_getHotelId d u h) =
     js_bind (entitlement_gate d u) (\<lambda>_. await (hotelsRepository_getRoomsHotelId d h))"
  by (simp add: hotelsService_getHotelId_def entitlement_gate_def split: option.splits sum.splits)

lemma gate_no_enrollment:
  assumes "\<not> enrolled d u"
  shows "entitlement_gate d u = Inl TypeError"
proof -
  from assms have "findWithAddressByUserId d u = None"
    by (simp add: enrolled_def findWithAddressByUserId_None_iff)
  then show ?thesis by (simp add: entitlement_gate_def)
qed

lemma findTicket_of_unique:
  assumes wf: "wf_db d" and one: "one_ticket_per_enrollment d"
    and t: "t \<in> set (tickets d)" and tt: "tt \<in> set (ticketTypes d)"
    and ty: "ticketType_id tt = ticket_ticketTypeId t"
  shows "findTicketByEnrollmentId d (ticket_enrollmentId t) = Some (t, tt)"
proof -
  from one have "distinct (map ticket_enrollmentId (tickets d))"
    by (simp add: one_ticket_per_enrollment_def)
  from this t have "List.find (\<lambda>x. ticket_enrollmentId x = ticket_enrollmentId t) (tickets d) = Some t"
    by (rule find_unique_key)
  moreover from wf have "distinct (map ticketType_id (ticketTypes d))"
    by (simp add: wf_db_def ids_ok_def)
  from this tt have "List.find (\<lambda>x. ticketType_id x = ticketType_id tt) (ticketTypes d) = Some tt"
    by (rule find_unique_key)
  ultimately show ?thesis
    using ty by (simp add: findTicketByEnrollmentId_def)
qed

text \<open>
  The gate on an enrolled user whose ticket lookup has found a ticket: it lets the
  request through exactly when that ticket qualifies.
\<close>

lemma gate_found_ticket:
  assumes wf: "wf_db d"
    and e: "e \<in> set (enrollments d)" "enrollment_userId e = u"
    and found: "findTicketByEnrollmentId d (enrollment_id e) = Some (t, tt)"
  shows "entitlement_gate d u = (if ticket_qualifies t tt then Inr () else Inl NotFoundError)"
proof -
  from wf e have "findWithAddressByUserId d u =
      Some (e, filter (\<lambda>a. address_enrollmentId a = enrollment_id e) (addresses d))"
    by (simp add: findWithAddressByUserId_Some_iff)
  with found show ?thesis by (simp add: entitlement_gate_def)
qed

text \<open>
  The gate on a user with an enrollment whose ticket is known: it lets the request
  through exactly when that ticket qualifies.
\<close>

lemma gate_of_ticket:
  assumes wf: "wf_db d" and one: "one_ticket_per_enrollment d"
    and e: "e \<in> set (enrollments d)" "enrollment_userId e = u"
    and t: "t \<in> set (tickets d)" "ticket_enrollmentId t = enrollment_id e"
    and tt: "tt \<in> set (ticketTypes d)" "ticketType_id tt = ticket_ticketTypeId t"
  shows "entitlement_gate d u = (if ticket_qualifies t tt then Inr () else Inl NotFoundError)"
  using gate_found_ticket [OF wf e] findTicket_of_unique [OF wf one t(1) tt] t(2) by simp

lemma gate_enrolled_no_ticket:
  assumes wf: "wf_db d" and e: "e \<in> set (enrollments d)" "enrollment_userId e = u"
    and none: "\<forall>t \<in> set (tickets d). ticket_enrollmentId t \<noteq> enrollment_id e"
  shows "entitlement_gate d u = Inl NotFoundError"
proof -
  from wf e have "findWithAddressByUserId d u =
      Some (e, filter (\<lambda>a. address_enrollmentId a = enrollment_id e) (addresses d))"
    by (simp add: findWithAddressByUserId_Some_iff)
  moreover from none have "findTicketByEnrollmentId d (enrollment_id e) = None"
    by (simp add: findTicketByEnrollmentId_None_iff [OF wf])
  ultimately show ?thesis
    by (simp add: entitlement_gate_def)
qed

text \<open>
  The gate decides the specification's entitlement: it passes exactly the entitled
  users, and rejects the others with \<open>NotFoundError\<close> when they are enrolled and with a
  \<open>TypeError\<close> when they are not.
\<close>

lemma eligible_by_enrollment:
  assumes wf: "wf_db d" and e: "e \<in> set (enrollments d)" "enrollment_userId e = u"
  shows "eligible d u \<longleftrightarrow> has_qualifying_ticket d e"
proof
  assume "eligible d u"
  then obtain e' where e': "e' \<in> set (enrollments d)" "enrollment_userId e' = u"
    and q: "has_qualifying_ticket d e'"
    by (auto simp: eligible_def)
  from wf have "distinct (map enrollment_userId (enrollments d))"
    by (simp add: wf_db_def)
  from distinct_key_eq [OF this e'(1) e(1)] e(2) e'(2) have "e' = e" by simp
  with q show "has_qualifying_ticket d e" by simp
next
  assume "has_qualifying_ticket d e"
  with e show "eligible d u" by (auto simp: eligible_def)
qed

lemma qualifying_ticket_unique:
  assumes wf: "wf_db d" and one: "one_ticket_per_enrollment d"
    and t: "t \<in> set (tickets d)" "ticket_enrollmentId t = enrollment_id e"
    and tt: "tt \<in> set (ticketTypes d)" "ticketType_id tt = ticket_ticketTypeId t"
  shows "has_qualifying_ticket d e \<longleftrightarrow> ticket_qualifies t tt"
proof
  assume "has_qualifying_ticket d e"
  then obtain t' tt' where t': "t' \<in> set (tickets d)" "ticket_enrollmentId t' = enrollment_id e"
    and tt': "tt' \<in> set (ticketTypes d)" "ticketType_id tt' = ticket_ticketTypeId t'"
    and q: "ticket_qualifies t' tt'"
    by (auto simp: has_qualifying_ticket_def)
  from one have "distinct (map ticket_enrollmentId (tickets d))"
    by (simp add: one_ticket_per_enrollment_def)
  from distinct_key_eq [OF this t'(1) t(1)] t(2) t'(2) have "t' = t" by simp
  from wf have "distinct (map ticketType_id (ticketTypes d))"
    by (simp add: wf_db_def ids_ok_def)
  from distinct_key_eq [OF this tt'(1) tt(1)] tt(2) tt'(2) \<open>t' = t\<close> have "tt' = tt" by simp
  with q \<open>t' = t\<close> show "ticket_qualifies t tt" by simp
next
  assume "ticket_qualifies t tt"
  with t tt show "has_qualifying_ticket d e" by (auto simp: has_qualifying_ticket_def)
qed

text \<open>
  The gate decides the specification's entitlement: it passes exactly the entitled
  users, and rejects the others with \<open>NotFoundError\<close> when they are enrolled and with a
  \<open>TypeError\<close> when they are not.
\<close>

lemma gate_eligible:
  assumes wf: "wf_db d" and one: "one_ticket_per_enrollment d"
  shows "entitlement_gate d u =
    (if eligible d u then Inr () else Inl (if enrolled d u then NotFoundError else TypeError))"
proof (cases "enrolled d u")
  case False
  then have "\<not> eligible d u" by (auto simp: eligible_def enrolled_def)
  with False show ?thesis by (simp add: gate_no_enrollment)
next
  case True
  then obtain e where e: "e \<in> set (enrollments d)" "enrollment_userId e = u"
    by (auto simp: enrolled_def)
  note elig = eligible_by_enrollment [OF wf e]
  show ?thesis
  proof (cases "\<exists>t \<in> set (tickets d). ticket_enrollmentId t = enrollment_id e")
    case False
    then have "\<not> has_qualifying_ticket d e" by (auto simp: has_qualifying_ticket_def)
    with elig False True show ?thesis
      by (simp add: gate_enrolled_no_ticket [OF wf e])
  next
    case True
    then obtain t where t: "t \<in> set (tickets d)" "ticket_enrollmentId t = enrollment_id e" by blast
    with wf obtain tt where tt: "tt \<in> set (ticketTypes d)" "ticketType_id tt = ticket_ticketTypeId t"
      by (force simp: wf_db_def refs_ok_def)
    from elig qualifying_ticket_unique [OF wf one t tt]
    have "eligible d u \<longleftrightarrow> ticket_qualifies t tt" by simp
    with gate_of_ticket [OF wf one e t tt] \<open>enrolled d u\<close> show ?thesis by simp
  qed
qed

lemma gate_ticket_of_user:
  assumes wf: "wf_db d" and one: "one_ticket_per_enrollment d" and tu: "ticket_of_user d u t tt"
  shows "entitlement_gate d u = (if ticket_qualifies t tt then Inr () else Inl NotFoundError)"
proof -
  from tu obtain e where e: "e \<in> set (enrollments d)" "enrollment_userId e = u"
    and t: "t \<in> set (tickets d)" "ticket_enrollmentId t = enrollment_id e"
    and tt: "tt \<in> set (ticketTypes d)" "ticketType_id tt = ticket_ticketTypeId t"
    by (auto simp: ticket_of_user_def)
  show ?thesis by (rule gate_of_ticket [OF wf one e t tt])
qed

lemma both_operations_rejected:
  "entitlement_gate d u = Inl err \<Longrightarrow>
   await (hotelsService_getHotels d u) = Inl err \<and> await (hotelsService_getHotelId d u h) = Inl err"
  by (simp add: getHotels_gate getHotelId_gate)

lemma ex_db_facts:
  "wf_db (ex_db 1 PAID [ex_hotel] [ex_room])"
  "one_ticket_per_enrollment (ex_db typeId st hs rs)"
  "eligible (ex_db 1 PAID hs rs) 1"
proof -
  show "wf_db (ex_db 1 PAID [ex_hotel] [ex_room])" by (rule wf_ex_db) simp_all
  show "one_ticket_per_enrollment (ex_db typeId st hs rs)"
    by (simp add: one_ticket_per_enrollment_def ex_defs)
  show "eligible (ex_db 1 PAID hs rs) 1"
    by (simp add: eligible_def has_qualifying_ticket_def ticket_qualifies_def ex_defs)
qed

subsection \<open>Properties of the service\<close>

text \<open>
  C1. On a well-formed store where each enrollment has at most one ticket,
  \<open>getHotels\<close> returns every hotel of the store exactly when the user is entitled in
  the sense of the specification; otherwise it rejects, with \<open>NotFoundError\<close> for an
  enrolled user and with a \<open>TypeError\<close> for a user without an enrollment.
\<close>

theorem getHotels_refines_entitlement:
  assumes "wf_db d" and "one_ticket_per_enrollment d"
  shows "await (hotelsService_getHotels d u) =
    (if eligible d u then Inr (hotels d) else Inl (if enrolled d u then NotFoundError else TypeError))"
  using gate_eligible [OF assms, of u] by (simp add: getHotels_gate)

theorem getHotels_refines_entitlement_witness:
  "wf_db (ex_db 1 PAID [ex_hotel] [ex_room]) \<and> one_ticket_per_enrollment (ex_db 1 PAID [ex_hotel] [ex_room]) \<and>
   await (hotelsService_getHotels (ex_db 1 PAID [ex_hotel] [ex_room]) 1) = Inr [ex_hotel]"
  using getHotels_refines_entitlement [OF ex_db_facts(1,2), of 1] ex_db_facts
  by (simp add: ex_db_def)

text \<open>
  C2. Under the same conditions \<open>getHotelId\<close> performs the repository's lookup by id
  exactly for entitled users, and rejects the others as \<open>getHotels\<close> does.
\<close>

theorem getHotelId_refines_entitlement:
  assumes "wf_db d" and "one_ticket_per_enrollment d"
  shows "await (hotelsService_getHotelId d u h) =
    (if eligible d u then await (hotelsRepository_getRoomsHotelId d h)
     else Inl (if enrolled d u then NotFoundError else TypeError))"
  using gate_eligible [OF assms, of u] by (simp add: getHotelId_gate)

theorem getHotelId_refines_entitlement_witness:
  "wf_db (ex_db 1 PAID [ex_hotel] [ex_room]) \<and> one_ticket_per_enrollment (ex_db 1 PAID [ex_hotel] [ex_room]) \<and>
   await (hotelsService_getHotelId (ex_db 1 PAID [ex_hotel] [ex_room]) 1 (JsInt 1)) =
     Inr (Some (with_rooms ex_hotel [ex_room]))"
  using getHotelId_refines_entitlement [OF ex_db_facts(1,2), of 1 "JsInt 1"] ex_db_facts
  by (simp add: ex_db_def ex_hotel_def ex_room_def rooms_of_def in_int4_def int4_max_def)

text \<open>
  C6. A user without an enrollment is rejected by both operations with a
  \<open>TypeError\<close>: the code's \<open>if(!enroll)\<close> tests a promise and never fires, and the
  rejection comes from reading \<open>id\<close> of the \<open>null\<close> the promise resolves to. The
  specification says \<open>NotFound\<close>.
\<close>

theorem no_enrollment_TypeError:
  assumes "\<forall>e \<in> set (enrollments d). enrollment_userId e \<noteq> u"
  shows "await (hotelsService_getHotels d u) = Inl TypeError \<and>
         await (hotelsService_getHotelId d u h) = Inl TypeError"
proof -
  from assms have "\<not> enrolled d u" by (auto simp: enrolled_def)
  then show ?thesis by (simp add: both_operations_rejected gate_no_enrollment)
qed

theorem no_enrollment_TypeError_witness:
  "await (hotelsService_getHotels empty_db 1) = Inl TypeError \<and>
   await (hotelsService_getHotelId empty_db 1 (JsInt 1)) = Inl TypeError"
  using no_enrollment_TypeError [of empty_db 1 "JsInt 1"] by (simp add: empty_db_def)

text \<open>
  C7. A user whose ticket type is remote is rejected by both operations with
  \<open>NotFoundError\<close>, whatever the ticket's status.
\<close>

theorem remote_ticket_NotFound:
  assumes "wf_db d" and "one_ticket_per_enrollment d" and "ticket_of_user d u t tt"
    and "ticketType_isRemote tt"
  shows "await (hotelsService_getHotels d u) = Inl NotFoundError \<and>
         await (hotelsService_getHotelId d u h) = Inl NotFoundError"
  using gate_ticket_of_user [OF assms(1-3)] assms(4)
  by (simp add: both_operations_rejected ticket_qualifies_def)

theorem remote_ticket_NotFound_witness:
  "await (hotelsService_getHotels (ex_db 2 PAID [ex_hotel] []) 1) = Inl NotFoundError \<and>
   await (hotelsService_getHotelId (ex_db 2 PAID [ex_hotel] []) 1 (JsInt 1)) = Inl NotFoundError"
proof -
  have wf: "wf_db (ex_db 2 PAID [ex_hotel] [])" by (rule wf_ex_db) simp_all
  have tu: "ticket_of_user (ex_db 2 PAID [ex_hotel] []) 1 (ex_ticket 2 PAID) (ex_ticket_types ! 1)"
    by (simp add: ticket_of_user_def ex_defs)
  have "ticketType_isRemote (ex_ticket_types ! 1)" by (simp add: ex_ticket_types_def)
  from remote_ticket_NotFound [OF wf ex_db_facts(2) tu this] show ?thesis .
qed

text \<open>
  C8. A user whose ticket type does not include the hotel is rejected by both
  operations with \<open>NotFoundError\<close>.
\<close>

theorem no_hotel_ticket_NotFound:
  assumes "wf_db d" and "one_ticket_per_enrollment d" and "ticket_of_user d u t tt"
    and "\<not> ticketType_includesHotel tt"
  shows "await (hotelsService_getHotels d u) = Inl NotFoundError \<and>
         await (hotelsService_getHotelId d u h) = Inl NotFoundError"
  using gate_ticket_of_user [OF assms(1-3)] assms(4)
  by (simp add: both_operations_rejected ticket_qualifies_def)

theorem no_hotel_ticket_NotFound_witness:
  "await (hotelsService_getHotels (ex_db 3 PAID [ex_hotel] []) 1) = Inl NotFoundError \<and>
   await (hotelsService_getHotelId (ex_db 3 PAID [ex_hotel] []) 1 (JsInt 1)) = Inl NotFoundError"
proof -
  have wf: "wf_db (ex_db 3 PAID [ex_hotel] [])" by (rule wf_ex_db) simp_all
  have tu: "ticket_of_user (ex_db 3 PAID [ex_hotel] []) 1 (ex_ticket 3 PAID) (ex_ticket_types ! 2)"
    by (simp add: ticket_of_user_def ex_defs)
  have "\<not> ticketType_includesHotel (ex_ticket_types ! 2)" by (simp add: ex_ticket_types_def)
  from no_hotel_ticket_NotFound [OF wf ex_db_facts(2) tu this] show ?thesis .
qed

text \<open>
  C9. A user whose ticket is \<open>RESERVED\<close> is rejected by both operations with
  \<open>NotFoundError\<close>, even when the ticket type is in person and includes the hotel.
\<close>

theorem reserved_ticket_NotFound:
  assumes "wf_db d" and "one_ticket_per_enrollment d" and "ticket_of_user d u t tt"
    and "ticket_status t = RESERVED"
  shows "await (hotelsService_getHotels d u) = Inl NotFoundError \<and>
         await (hotelsService_getHotelId d u h) = Inl NotFoundError"
  using gate_ticket_of_user [OF assms(1-3)] assms(4)
  by (simp add: both_operations_rejected ticket_qualifies_def)

theorem reserved_ticket_NotFound_witness:
  "await (hotelsService_getHotels (ex_db 1 RESERVED [ex_hotel] []) 1) = Inl NotFoundError \<and>
   await (hotelsService_getHotelId (ex_db 1 RESERVED [ex_hotel] []) 1 (JsInt 1)) = Inl NotFoundError"
proof -
  have wf: "wf_db (ex_db 1 RESERVED [ex_hotel] [])" by (rule wf_ex_db) simp_all
  have tu: "ticket_of_user (ex_db 1 RESERVED [ex_hotel] []) 1 (ex_ticket 1 RESERVED) (ex_ticket_types ! 0)"
    by (simp add: ticket_of_user_def ex_defs)
  have "ticket_status (ex_ticket 1 RESERVED) = RESERVED" by (simp add: ex_ticket_def)
  from reserved_ticket_NotFound [OF wf ex_db_facts(2) tu this] show ?thesis .
qed

text \<open>
  C10. An enrolled user without a ticket is rejected by both operations with
  \<open>NotFoundError\<close>.
\<close>

theorem no_ticket_NotFound:
  assumes "wf_db d" and "e \<in> set (enrollments d)" and "enrollment_userId e = u"
    and "\<forall>t \<in> set (tickets d). ticket_enrollmentId t \<noteq> enrollment_id e"
  shows "await (hotelsService_getHotels d u) = Inl NotFoundError \<and>
         await (hotelsService_getHotelId d u h) = Inl NotFoundError"
  using gate_enrolled_no_ticket [OF assms] by (simp add: both_operations_rejected)

theorem no_ticket_NotFound_witness:
  "await (hotelsService_getHotels ex_db_no_ticket 1) = Inl NotFoundError \<and>
   await (hotelsService_getHotelId ex_db_no_ticket 1 (JsInt 1)) = Inl NotFoundError"
proof -
  have e: "ex_enrollment \<in> set (enrollments ex_db_no_ticket)" "enrollment_userId ex_enrollment = 1"
    by (simp_all add: ex_defs)
  have "\<forall>t \<in> set (tickets ex_db_no_ticket). ticket_enrollmentId t \<noteq> enrollment_id ex_enrollment"
    by (simp add: ex_defs)
  from no_ticket_NotFound [OF wf_ex_db_no_ticket e this] show ?thesis .
qed

text \<open>
  C11. The two operations share one gate: for every store, user and hotel id that fits
  the INT4 column, \<open>getHotelId\<close> rejects with an error exactly when \<open>getHotels\<close> rejects
  with the same error.
\<close>

theorem gate_shared_by_both_operations:
  assumes "in_int4 h"
  shows "await (hotelsService_getHotelId d u (JsInt h)) = Inl err \<longleftrightarrow>
         await (hotelsService_getHotels d u) = Inl err"
  using assms by (cases "entitlement_gate d u") (simp_all add: getHotels_gate getHotelId_gate)

theorem gate_shared_by_both_operations_witness:
  "await (hotelsService_getHotelId (ex_db 2 PAID [ex_hotel] []) 1 (JsInt 1)) = Inl NotFoundError"
proof -
  have i: "in_int4 1" by (simp add: in_int4_def int4_max_def)
  have "await (hotelsService_getHotels (ex_db 2 PAID [ex_hotel] []) 1) = Inl NotFoundError"
    by (simp add: getHotels_gate entitlement_gate_def findWithAddressByUserId_def
        findTicketByEnrollmentId_def ticket_qualifies_def ex_defs)
  with gate_shared_by_both_operations [OF i, of "ex_db 2 PAID [ex_hotel] []" 1 NotFoundError]
  show ?thesis by simp
qed

text \<open>
  C12. An entitled user asking for a hotel of a well-formed store gets that hotel with
  exactly its rooms, in the store's order.
\<close>

theorem getHotelId_hotel_with_its_rooms:
  assumes "wf_db d" and "one_ticket_per_enrollment d" and "eligible d u"
    and "h \<in> set (hotels d)"
  shows "await (hotelsService_getHotelId d u (JsInt (hotel_id h))) =
    Inr (Some (with_rooms h (filter (\<lambda>r. room_hotelId r = hotel_id h) (rooms d))))"
proof -
  from assms(1) have "distinct (map hotel_id (hotels d))"
    by (simp add: wf_db_def ids_ok_def)
  from find_unique_key [OF this assms(4)] gate_eligible [OF assms(1,2), of u] assms(3)
    wf_db_hotel_int4 [OF assms(1,4)]
  show ?thesis by (simp add: getHotelId_gate rooms_of_def)
qed

theorem getHotelId_hotel_with_its_rooms_witness:
  "await (hotelsService_getHotelId (ex_db 1 PAID [ex_hotel] [ex_room]) 1 (JsInt 1)) =
     Inr (Some (with_rooms ex_hotel [ex_room]))"
proof -
  have h: "ex_hotel \<in> set (hotels (ex_db 1 PAID [ex_hotel] [ex_room]))" by (simp add: ex_db_def)
  from getHotelId_hotel_with_its_rooms [OF ex_db_facts(1,2,3) h]
  show ?thesis by (simp add: ex_db_def ex_hotel_def ex_room_def)
qed

text \<open>
  C13. An entitled user asking for an integer id no hotel has gets \<open>null\<close>, not an
  error, when the id fits the INT4 column: the repository's absence is passed through.
  An integer outside INT4 reaches the query unchecked and is rejected by it.
\<close>

theorem getHotelId_null_passthrough:
  assumes "wf_db d" and "one_ticket_per_enrollment d" and "eligible d u"
    and "\<forall>h \<in> set (hotels d). hotel_id h \<noteq> i"
  shows "await (hotelsService_getHotelId d u (JsInt i)) =
           (if in_int4 i then Inr None else Inl PrismaRangeError)"
proof -
  have "await (hotelsRepository_getRoomsHotelId d (JsInt i)) =
          (if in_int4 i then Inr None else Inl PrismaRangeError)"
    using getRoomsHotelId_None_iff [of i d] assms(4) by simp
  with gate_eligible [OF assms(1,2), of u] assms(3) show ?thesis
    by (simp add: getHotelId_gate)
qed

theorem getHotelId_null_passthrough_witness:
  "await (hotelsService_getHotelId (ex_db 1 PAID [ex_hotel] [ex_room]) 1 (JsInt 7)) = Inr None \<and>
   await (hotelsService_getHotelId (ex_db 1 PAID [ex_hotel] [ex_room]) 1 (JsInt (2 ^ 31))) =
     Inl PrismaRangeError"
proof -
  have "\<forall>h \<in> set (hotels (ex_db 1 PAID [ex_hotel] [ex_room])). hotel_id h \<noteq> 7"
    and "\<forall>h \<in> set (hotels (ex_db 1 PAID [ex_hotel] [ex_room])). hotel_id h \<noteq> 2 ^ 31"
    by (simp_all add: ex_db_def ex_hotel_def)
  from this [THEN getHotelId_null_passthrough [OF ex_db_facts(1,2,3)]]
  show ?thesis by (simp add: in_int4_def int4_max_def)
qed

text \<open>
  C14. An entitled user whose hotel id is \<open>NaN\<close> gets Prisma's validation error: the
  service does not check the id it passes to the repository.
\<close>

theorem getHotelId_NaN_rejected:
  assumes "wf_db d" and "one_ticket_per_enrollment d" and "eligible d u"
  shows "await (hotelsService_getHotelId d u JsNaN) = Inl PrismaValidationError"
  using gate_eligible [OF assms(1,2), of u] assms(3) by (simp add: getHotelId_gate)

theorem getHotelId_NaN_rejected_witness:
  "await (hotelsService_getHotelId (ex_db 1 PAID [ex_hotel] [ex_room]) 1 JsNaN) = Inl PrismaValidationError"
  by (rule getHotelId_NaN_rejected [OF ex_db_facts(1,2,3)])

text \<open>
  C15. Only the first ticket of an enrollment, in the store's order, is read: on every
  well-formed store, whatever tickets of the same enrollment follow it (a \<open>PAID\<close> one
  after a \<open>RESERVED\<close> one, say), both operations let the user through exactly when that
  first ticket qualifies, and reject with \<open>NotFoundError\<close> otherwise.
\<close>

theorem first_ticket_decides:
  assumes "wf_db d"
    and "e \<in> set (enrollments d)" "enrollment_userId e = u"
    and "tickets d = ts @ t # ts'" "\<forall>x \<in> set ts. ticket_enrollmentId x \<noteq> enrollment_id e"
      "ticket_enrollmentId t = enrollment_id e"
    and "tt \<in> set (ticketTypes d)" "ticketType_id tt = ticket_ticketTypeId t"
  shows "await (hotelsService_getHotels d u) =
           (if ticket_qualifies t tt then Inr (hotels d) else Inl NotFoundError) \<and>
         await (hotelsService_getHotelId d u h) =
           (if ticket_qualifies t tt then await (hotelsRepository_getRoomsHotelId d h)
            else Inl NotFoundError)"
proof -
  note a = assms
  from a(4-6) have "List.find (\<lambda>x. ticket_enrollmentId x = enrollment_id e) (tickets d) = Some t"
    by (simp add: find_first_match)
  moreover from a(1) have "distinct (map ticketType_id (ticketTypes d))"
    by (simp add: wf_db_def ids_ok_def)
  from this a(7) have "List.find (\<lambda>x. ticketType_id x = ticketType_id tt) (ticketTypes d) = Some tt"
    by (rule find_unique_key)
  ultimately have "findTicketByEnrollmentId d (enrollment_id e) = Some (t, tt)"
    using a(6,8) by (simp add: findTicketByEnrollmentId_def)
  from gate_found_ticket [OF a(1-3) this] show ?thesis
    by (simp add: getHotels_gate getHotelId_gate)
qed

theorem first_ticket_decides_witness:
  "eligible ex_db_two_tickets 1 \<and>
   await (hotelsService_getHotels ex_db_two_tickets 1) = Inl NotFoundError \<and>
   await (hotelsService_getHotelId ex_db_two_tickets 1 (JsInt 1)) = Inl NotFoundError"
proof -
  have "eligible ex_db_two_tickets 1"
    by (simp add: eligible_def has_qualifying_ticket_def ticket_qualifies_def ex_defs)
  moreover have "\<not> ticket_qualifies (ex_ticket 1 RESERVED) (ex_ticket_types ! 0)"
    by (simp add: ticket_qualifies_def ex_defs)
  moreover note first_ticket_decides [OF wf_ex_db_two_tickets, of ex_enrollment 1 "[]"
      "ex_ticket 1 RESERVED" "[(ex_ticket 1 PAID)\<lparr>ticket_id := 2\<rparr>]" "ex_ticket_types ! 0" "JsInt 1"]
  ultimately show ?thesis by (simp add: ex_defs)
qed

end
