(* ===== verification/JsNumber.thy ===== *)
theory JsNumber
  imports JsRuntime
begin

text \<open>
  \<open>Number(s)\<close> on a string, which the controller applies to the path parameter
  \<open>hotelId\<close>, and the string of an integer that a client writes into the path
  (\<open>`/hotels/${hotel.id}`\<close> in the tests). Both are ECMAScript built-ins, modelled from
  the language definition (StringToNumber, Number::toString):
  \<^item> the string is trimmed of white space; an empty string is \<open>0\<close>;
  \<^item> \<open>0x\<close>, \<open>0o\<close>, \<open>0b\<close> (either case) introduce a hexadecimal, octal or binary
    integer, without sign;
  \<^item> otherwise an optional sign, then \<open>Infinity\<close> or a decimal literal: digits with an
    optional fraction after a dot (one side of the dot may be empty, not both) and an
    optional exponent \<open>e\<close>/\<open>E\<close> with optional sign;
  \<^item> anything else is \<open>NaN\<close>.
  The literal's exact value is rounded to the nearest double (ties to even, \<open>Infinity\<close>
  beyond the largest double, subnormals near zero), and the result says whether that
  double is an integer (\<open>JsInt\<close> with its value) or not. One restriction, stated here
  once: only the six ASCII white-space characters are trimmed (strings are byte lists
  here, so the Unicode space separators are not single characters).
  The printer \<^term>\<open>js_int_toString\<close> writes every digit of an integer. This is
  \<open>Number::toString\<close> on the safe integers (magnitude at most \<open>2^53\<close>), where every digit
  is needed to tell a double from its neighbours. Above \<open>2^53\<close> JavaScript writes the
  shortest string that reads back as the same double, which this printer does not do.
  It is applied only to ids, which are INT4.
\<close>

definition js_whitespace :: "char \<Rightarrow> bool" where
  "js_whitespace c \<longleftrightarrow> c \<in> set [CHR 0x09, CHR 0x0A, CHR 0x0B, CHR 0x0C, CHR 0x0D, CHR 0x20]"

definition trim_js :: "string \<Rightarrow> string" where
  "trim_js s = rev (dropWhile js_whitespace (rev (dropWhile js_whitespace s)))"

definition digit_value :: "nat \<Rightarrow> char \<Rightarrow> nat option" where
  "digit_value base c =
     (let n = (of_char c :: nat);
          v = (if 48 \<le> n \<and> n \<le> 57 then Some (n - 48)
               else if 97 \<le> n \<and> n \<le> 122 then Some (n - 87)
               else if 65 \<le> n \<and> n \<le> 90 then Some (n - 55) else None)
      in case v of Some d \<Rightarrow> if d < base then Some d else None | None \<Rightarrow> None)"

fun digits_value :: "nat \<Rightarrow> nat \<Rightarrow> string \<Rightarrow> nat option" where
  "digits_value base acc [] = Some acc"
| "digits_value base acc (c # cs) =
     (case digit_value base c of
        None \<Rightarrow> None
      | Some v \<Rightarrow> digits_value base (acc * base + v) cs)"

definition parse_digits :: "nat \<Rightarrow> string \<Rightarrow> nat option" where
  \<comment> \<open>one or more digits of the base\<close>
  "parse_digits base s = (if s = [] then None else digits_value base 0 s)"

definition parse_exponent :: "string \<Rightarrow> int option" where
  "parse_exponent s =
     (case s of
        [] \<Rightarrow> None
      | c # ds \<Rightarrow>
          if c = CHR ''+'' then map_option int (parse_digits 10 ds)
          else if c = CHR ''-'' then map_option (\<lambda>n. - int n) (parse_digits 10 ds)
          else map_option int (parse_digits 10 s))"

definition is_exp_mark :: "char \<Rightarrow> bool" where
  "is_exp_mark c \<longleftrightarrow> c = CHR ''e'' \<or> c = CHR ''E''"

text \<open>An unsigned decimal literal: its digits as one natural number and the power of ten.\<close>

definition parse_unsigned_decimal :: "string \<Rightarrow> (nat \<times> int) option" where
  "parse_unsigned_decimal s =
     (let m = takeWhile (\<lambda>c. \<not> is_exp_mark c) s;
          e = dropWhile (\<lambda>c. \<not> is_exp_mark c) s;
          ip = takeWhile (\<lambda>c. c \<noteq> CHR ''.'') m;
          fp = drop 1 (dropWhile (\<lambda>c. c \<noteq> CHR ''.'') m);
          ex = (if e = [] then Some 0 else parse_exponent (tl e))
      in if ip @ fp = [] then None
         else case (digits_value 10 0 (ip @ fp), ex) of
           (Some v, Some x) \<Rightarrow> Some (v, x - int (length fp))
         | _ \<Rightarrow> None)"

text \<open>
  Rounding to a double. A literal's exact value is \<open>num / den\<close> (naturals, \<open>den > 0\<close>)
  with a sign; the double nearest to it (ties to even) is \<open>m * 2^s\<close>, where \<open>s\<close> is the
  exponent of the last of the 53 significant bits (at least \<open>-1074\<close>, the subnormal
  range) and \<open>m\<close> the rounded quotient \<open>num / (den * 2^s)\<close>; a value that rounds to
  \<open>2^1024\<close> or more is \<open>Infinity\<close>. \<^term>\<open>bitlen\<close> is the number of binary digits,
  \<^term>\<open>floor_log2\<close> the exponent \<open>e\<close> with \<open>2^e \<le> num / den < 2^(e+1)\<close>.
\<close>

fun bitlen :: "nat \<Rightarrow> nat" where
  "bitlen n = (if n = 0 then 0 else Suc (bitlen (n div 2)))"

definition pow2_le :: "nat \<Rightarrow> nat \<Rightarrow> int \<Rightarrow> bool" where
  \<comment> \<open>\<open>2^e \<le> num / den\<close>\<close>
  "pow2_le num den e = (if 0 \<le> e then den * 2 ^ nat e \<le> num else den \<le> num * 2 ^ nat (- e))"

definition floor_log2 :: "nat \<Rightarrow> nat \<Rightarrow> int" where
  "floor_log2 num den =
     (let e = int (bitlen num) - int (bitlen den) in if pow2_le num den e then e else e - 1)"

definition round_half_even :: "nat \<Rightarrow> nat \<Rightarrow> nat" where
  \<comment> \<open>the integer nearest to \<open>a / b\<close>, ties to even\<close>
  "round_half_even a b =
     (let r = a div b; h = 2 * (a mod b) in
      if b < h then r + 1 else if h < b then r else if even r then r else r + 1)"

definition double_of :: "int \<Rightarrow> nat \<Rightarrow> nat \<Rightarrow> js_number" where
  "double_of sg num den =
     (if num = 0 then JsInt 0
      else let s = max (floor_log2 num den - 52) (- 1074);
               m = (if 0 \<le> s then round_half_even num (den * 2 ^ nat s)
                    else round_half_even (num * 2 ^ nat (- s)) den)
           in if 0 \<le> s then (if 2 ^ 1024 \<le> m * 2 ^ nat s then JsNonInt else JsInt (sg * int (m * 2 ^ nat s)))
              else if 2 ^ nat (- s) dvd m then JsInt (sg * int (m div 2 ^ nat (- s)))
              else JsNonInt)"

definition decimal_number :: "int \<Rightarrow> nat \<Rightarrow> int \<Rightarrow> js_number" where
  \<comment> \<open>the double nearest to \<open>sg * v * 10^x\<close>\<close>
  "decimal_number sg v x = double_of sg (v * 10 ^ nat x) (10 ^ nat (- x))"

definition parse_non_decimal :: "string \<Rightarrow> nat option" where
  "parse_non_decimal t =
     (case t of
        c0 # c1 # ds \<Rightarrow>
          if c0 = CHR ''0'' \<and> (c1 = CHR ''x'' \<or> c1 = CHR ''X'') then parse_digits 16 ds
          else if c0 = CHR ''0'' \<and> (c1 = CHR ''o'' \<or> c1 = CHR ''O'') then parse_digits 8 ds
          else if c0 = CHR ''0'' \<and> (c1 = CHR ''b'' \<or> c1 = CHR ''B'') then parse_digits 2 ds
          else None
      | _ \<Rightarrow> None)"

definition js_Number :: "string \<Rightarrow> js_number" where
  "js_Number s =
     (let t = trim_js s in
      if t = [] then JsInt 0
      else case parse_non_decimal t of
        Some n \<Rightarrow> double_of 1 n 1
      | None \<Rightarrow>
          (let (sg, u) = (if hd t = CHR ''-'' then (-1 :: int, tl t)
                          else if hd t = CHR ''+'' then (1, tl t) else (1, t))
           in if u = ''Infinity'' then JsNonInt
              else case parse_unsigned_decimal u of
                None \<Rightarrow> JsNaN
              | Some (v, x) \<Rightarrow> decimal_number sg v x))"

subsection \<open>The string of an integer\<close>

definition dec_char :: "nat \<Rightarrow> char" where
  "dec_char d = char_of (48 + d)"

fun nat_digits :: "nat \<Rightarrow> string" where
  "nat_digits n = (if n < 10 then [dec_char n] else nat_digits (n div 10) @ [dec_char (n mod 10)])"

definition js_int_toString :: "int \<Rightarrow> string" where
  "js_int_toString i = (if i < 0 then CHR ''-'' # nat_digits (nat (- i)) else nat_digits (nat i))"

declare nat_digits.simps [simp del] bitlen.simps [simp del]

subsection \<open>Facts about the digits\<close>

definition is_dec_char :: "char \<Rightarrow> bool" where
  "is_dec_char c \<longleftrightarrow> 48 \<le> (of_char c :: nat) \<and> (of_char c :: nat) \<le> 57"

lemma of_char_dec_char [simp]: "d < 10 \<Longrightarrow> (of_char (dec_char d) :: nat) = 48 + d"
  by (simp add: dec_char_def)

lemma is_dec_char_dec_char [simp]: "d < 10 \<Longrightarrow> is_dec_char (dec_char d)"
  by (simp add: is_dec_char_def)

lemma digit_value_dec_char [simp]: "d < 10 \<Longrightarrow> digit_value 10 (dec_char d) = Some d"
  by (simp add: digit_value_def)

lemma nat_digits_dec: "c \<in> set (nat_digits n) \<Longrightarrow> is_dec_char c"
  by (induction n rule: nat_digits.induct) (subst (asm) nat_digits.simps, auto split: if_splits)

lemma nat_digits_nonempty [simp]: "nat_digits n \<noteq> []"
  by (subst nat_digits.simps) simp

lemma digits_value_append:
  "digits_value b acc (xs @ ys) =
     (case digits_value b acc xs of None \<Rightarrow> None | Some a \<Rightarrow> digits_value b a ys)"
  by (induction b acc xs rule: digits_value.induct) (auto split: option.splits)

lemma digits_value_nat_digits:
  "digits_value 10 acc (nat_digits n) = Some (acc * 10 ^ length (nat_digits n) + n)"
proof (induction n arbitrary: acc rule: nat_digits.induct)
  case (1 n)
  show ?case
  proof (cases "n < 10")
    case True
    then have "nat_digits n = [dec_char n]"
      by (subst nat_digits.simps) simp
    with True show ?thesis by simp
  next
    case False
    then have "nat_digits n = nat_digits (n div 10) @ [dec_char (n mod 10)]"
      by (subst nat_digits.simps) simp
    moreover have "(acc * 10 ^ length (nat_digits (n div 10)) + n div 10) * 10 + n mod 10 =
        acc * 10 ^ Suc (length (nat_digits (n div 10))) + n"
      by (simp add: algebra_simps)
    ultimately show ?thesis
      using "1.IH" [OF False] by (simp add: digits_value_append)
  qed
qed

text \<open>A digit is none of the characters the parser gives a meaning to.\<close>

lemma dec_char_not_special:
  assumes "is_dec_char c"
  shows "\<not> js_whitespace c" and "\<not> is_exp_mark c" and "c \<noteq> CHR ''.''"
    and "c \<noteq> CHR ''-''" and "c \<noteq> CHR ''+''" and "c \<noteq> CHR ''x''" and "c \<noteq> CHR ''X''"
    and "c \<noteq> CHR ''o''" and "c \<noteq> CHR ''O''" and "c \<noteq> CHR ''b''" and "c \<noteq> CHR ''B''"
    and "c \<noteq> CHR ''I''"
  using assms by (auto simp: is_dec_char_def js_whitespace_def is_exp_mark_def)

lemma trim_js_no_space:
  assumes "\<forall>c \<in> set s. \<not> js_whitespace c"
  shows "trim_js s = s"
  using assms by (simp add: trim_js_def dropWhile_none)

lemma parse_unsigned_decimal_digits:
  assumes "\<forall>c \<in> set s. is_dec_char c" and "s \<noteq> []"
  shows "parse_unsigned_decimal s = map_option (\<lambda>v. (v, 0)) (digits_value 10 0 s)"
proof -
  from assms(1) have "\<forall>c \<in> set s. \<not> is_exp_mark c" and "\<forall>c \<in> set s. c \<noteq> CHR ''.''"
    by (auto dest: dec_char_not_special)
  then have "takeWhile (\<lambda>c. \<not> is_exp_mark c) s = s" "dropWhile (\<lambda>c. \<not> is_exp_mark c) s = []"
    "takeWhile (\<lambda>c. c \<noteq> CHR ''.'') s = s" "dropWhile (\<lambda>c. c \<noteq> CHR ''.'') s = []"
    by simp_all
  note eqs = this
  show ?thesis
    unfolding parse_unsigned_decimal_def Let_def eqs
    using assms(2) by (simp split: option.splits)
qed

lemma parse_non_decimal_digits:
  assumes "\<forall>c \<in> set s. is_dec_char c"
  shows "parse_non_decimal s = None"
proof (cases s)
  case Nil
  then show ?thesis by (simp add: parse_non_decimal_def)
next
  case (Cons c0 r)
  show ?thesis
  proof (cases r)
    case Nil
    with Cons show ?thesis by (simp add: parse_non_decimal_def)
  next
    case (Cons c1 ds)
    with \<open>s = c0 # r\<close> assms have "is_dec_char c1" by simp
    note d = dec_char_not_special [OF this]
    from d(6-11) \<open>s = c0 # r\<close> Cons show ?thesis
      by (simp add: parse_non_decimal_def)
  qed
qed

lemma Infinity_not_digits:
  assumes "\<forall>c \<in> set s. is_dec_char c"
  shows "s \<noteq> ''Infinity''"
proof
  assume "s = ''Infinity''"
  with assms have "is_dec_char (CHR ''I'')" by simp
  then show False by (simp add: is_dec_char_def)
qed

lemma digits_facts:
  fixes n :: nat
  defines "ds \<equiv> nat_digits n"
  shows "\<forall>c \<in> set ds. is_dec_char c" and "ds \<noteq> []"
    and "digits_value 10 0 ds = Some n"
    and "parse_unsigned_decimal ds = Some (n, 0)"
    and "trim_js ds = ds" and "parse_non_decimal ds = None" and "ds \<noteq> ''Infinity''"
    and "hd ds \<noteq> CHR ''-''" and "hd ds \<noteq> CHR ''+''"
proof -
  show dec: "\<forall>c \<in> set ds. is_dec_char c" by (simp add: ds_def nat_digits_dec)
  show ne: "ds \<noteq> []" by (simp add: ds_def)
  show dv: "digits_value 10 0 ds = Some n" by (simp add: ds_def digits_value_nat_digits)
  show "parse_unsigned_decimal ds = Some (n, 0)"
    using parse_unsigned_decimal_digits [OF dec ne] dv by simp
  show "trim_js ds = ds" using dec by (simp add: trim_js_no_space dec_char_not_special)
  show "parse_non_decimal ds = None" using dec by (rule parse_non_decimal_digits)
  show "ds \<noteq> ''Infinity''" using dec by (rule Infinity_not_digits)
  from dec ne have "is_dec_char (hd ds)" by simp
  then show "hd ds \<noteq> CHR ''-''" and "hd ds \<noteq> CHR ''+''" by (simp_all add: dec_char_not_special)
qed

subsection \<open>Rounding is exact on the safe integers\<close>

lemma bitlen_bounds:
  assumes "0 < n"
  shows "0 < bitlen n \<and> 2 ^ (bitlen n - 1) \<le> n \<and> n < 2 ^ bitlen n"
  using assms
proof (induction n rule: bitlen.induct)
  case (1 n)
  show ?case
  proof (cases "n div 2 = 0")
    case True
    with "1.prems" have "n = 1" by simp
    then show ?thesis by (simp add: bitlen.simps)
  next
    case False
    with "1.IH" "1.prems" have ih: "0 < bitlen (n div 2) \<and> 2 ^ (bitlen (n div 2) - 1) \<le> n div 2 \<and>
        n div 2 < 2 ^ bitlen (n div 2)" by simp
    have b: "bitlen n = Suc (bitlen (n div 2))" using "1.prems" by (simp add: bitlen.simps)
    from ih have "2 * 2 ^ (bitlen (n div 2) - 1) \<le> n" by linarith
    moreover from ih have "2 * 2 ^ (bitlen (n div 2) - 1) = (2::nat) ^ bitlen (n div 2)"
      by (metis Suc_diff_1 power_Suc)
    moreover from ih have "n < 2 * 2 ^ bitlen (n div 2)" by linarith
    ultimately show ?thesis by (simp add: b)
  qed
qed

lemma bitlen_one [simp]: "bitlen (Suc 0) = 1"
  by (simp add: bitlen.simps)

lemma round_half_even_exact: "0 < b \<Longrightarrow> b dvd a \<Longrightarrow> round_half_even a b = a div b"
  by (simp add: round_half_even_def Let_def)

lemma floor_log2_nat:
  assumes "0 < n"
  shows "floor_log2 n 1 = int (bitlen n) - 1"
proof -
  from bitlen_bounds [OF assms] have "2 ^ nat (int (bitlen n) - 1) \<le> n"
    by (simp add: nat_diff_distrib')
  moreover from bitlen_bounds [OF assms] have "0 \<le> int (bitlen n) - 1" by simp
  ultimately show ?thesis by (simp add: floor_log2_def pow2_le_def Let_def)
qed

text \<open>Every integer of magnitude at most \<open>2^53\<close> is a double: rounding leaves it alone.\<close>

lemma double_of_int:
  assumes "n \<le> 2 ^ 53"
  shows "double_of sg n (Suc 0) = JsInt (sg * int n)"
proof (cases "n = 0")
  case True
  then show ?thesis by (simp add: double_of_def)
next
  case False
  then have n: "0 < n" by simp
  let ?k = "bitlen n"
  note bb = bitlen_bounds [OF n]
  have "?k \<le> 54"
  proof (rule ccontr)
    assume "\<not> ?k \<le> 54"
    then have "(2::nat) ^ 54 \<le> 2 ^ (?k - 1)" by (intro power_increasing) simp_all
    with bb assms show False by simp
  qed
  have fl: "floor_log2 n (Suc 0) = int ?k - 1" using floor_log2_nat [OF n] by simp
  have s: "max (int ?k - 1 - 52) (- 1074) = int ?k - 53" using bb by simp
  consider (lt) "?k < 53" | (eq) "?k = 53" | (top) "?k = 54" using \<open>?k \<le> 54\<close> by linarith
  then show ?thesis
  proof cases
    case lt
    then have "nat (- (int ?k - 53)) = 53 - ?k" and "\<not> 0 \<le> int ?k - 53" by simp_all
    with fl s n show ?thesis by (simp add: double_of_def Let_def round_half_even_exact)
  next
    case eq
    with fl s n assms show ?thesis by (simp add: double_of_def Let_def round_half_even_exact)
  next
    case top
    with bb assms have "n = 2 ^ 53" by simp
    with fl s top show ?thesis by (simp add: double_of_def Let_def round_half_even_def)
  qed
qed

subsection \<open>Round trip\<close>

lemma js_Number_of_toString:
  assumes "\<bar>i\<bar> \<le> 2 ^ 53"
  shows "js_Number (js_int_toString i) = JsInt i"
proof (cases "i < 0")
  case False
  note f = digits_facts [of "nat i"]
  from False have "js_int_toString i = nat_digits (nat i)" by (simp add: js_int_toString_def)
  moreover from False assms have "nat i \<le> 2 ^ 53" by (simp add: nat_le_iff)
  ultimately show ?thesis using f False
    by (simp add: js_Number_def decimal_number_def double_of_int)
next
  case True
  note f = digits_facts [of "nat (- i)"]
  let ?s = "CHR ''-'' # nat_digits (nat (- i))"
  from True have s: "js_int_toString i = ?s" by (simp add: js_int_toString_def)
  have "\<forall>c \<in> set ?s. \<not> js_whitespace c"
  proof
    fix c assume "c \<in> set ?s"
    then consider "c = CHR ''-''" | "c \<in> set (nat_digits (nat (- i)))" by auto
    then show "\<not> js_whitespace c"
    proof cases
      case 1
      then show ?thesis by (simp add: js_whitespace_def)
    next
      case 2
      with f(1) have "is_dec_char c" by blast
      then show ?thesis by (rule dec_char_not_special(1))
    qed
  qed
  then have "trim_js ?s = ?s" by (rule trim_js_no_space)
  moreover have "parse_non_decimal ?s = None"
    by (simp add: parse_non_decimal_def split: list.splits)
  moreover from True assms have "nat (- i) \<le> 2 ^ 53" by (simp add: nat_le_iff)
  ultimately show ?thesis
    using s f True by (simp add: js_Number_def decimal_number_def double_of_int)
qed

end
