(* ===== verification/HotelsController.thy ===== *)
theory HotelsController
  imports HotelsService JsNumber
begin

text \<open>
  \<open>src/controllers/hotels-controller.ts\<close>: the two Express handlers. Each calls the
  service inside \<open>try\<close> and sends what the call returned with status 200; the \<open>catch\<close>
  logs the error's message and sends 404.

  Neither handler awaits the service: \<open>hotelsService.getHotels(Number(userId))\<close> is a
  call of an \<open>async\<close> function, which returns its promise at once and never throws. So
  the \<open>try\<close> block always completes, \<open>res.status(200).send(promise)\<close> sends
  \<open>JSON.stringify(promise)\<close>, the empty object \<open>{}\<close>, and a rejection of the promise
  is never caught: it becomes an unhandled rejection of the process. A handler's outcome
  records the response, the lines logged and the rejection nobody handles.

  \<open>Number(userId)\<close> is the identity here: the authentication middleware stores the
  JWT payload's numeric \<open>userId\<close> on the request. \<open>Number(hotelId)\<close> converts the path
  parameter with \<^term>\<open>js_Number\<close>.
\<close>

datatype body = BJson json | BText string

record response =
  res_status :: nat
  res_body :: body

record controller_outcome =
  out_response :: response
  out_log :: "js_error list"
  out_unhandled :: "js_error option"

definition status_text :: "nat \<Rightarrow> string" where
  "status_text code =
     (if code = 200 then ''OK'' else if code = 401 then ''Unauthorized''
      else if code = 404 then ''Not Found'' else [])"

definition res_send :: "nat \<Rightarrow> json \<Rightarrow> response" where
  \<comment> \<open>\<open>res.status(code).send(obj)\<close> for an object: its JSON\<close>
  "res_send code j = \<lparr>res_status = code, res_body = BJson j\<rparr>"

definition res_sendStatus :: "nat \<Rightarrow> response" where
  \<comment> \<open>\<open>res.sendStatus(code)\<close>: the status with its reason phrase as the body\<close>
  "res_sendStatus code = \<lparr>res_status = code, res_body = BText (status_text code)\<rparr>"

definition call_async :: "('e, 'a) promise \<Rightarrow> js_error + ('e, 'a) promise" where
  \<comment> \<open>the synchronous part of calling an \<open>async\<close> function: it returns its promise\<close>
  "call_async p = Inr p"

definition getHotels :: "db \<Rightarrow> js_id \<Rightarrow> controller_outcome" where
  "getHotels d userId =
     (case call_async (svc_getHotels hotelsService d userId) of
        Inr result \<Rightarrow>
          \<lparr>out_response = res_send 200 (json_of_promise result), out_log = [],
           out_unhandled = rejection result\<rparr>
      | Inl error \<Rightarrow>
          \<lparr>out_response = res_sendStatus 404, out_log = [error], out_unhandled = None\<rparr>)"

definition getHotelId :: "db \<Rightarrow> js_id \<Rightarrow> string \<Rightarrow> controller_outcome" where
  "getHotelId d userId hotelId =
     (case call_async (svc_getHotelId hotelsService d userId (js_Number hotelId)) of
        Inr result \<Rightarrow>
          \<lparr>out_response = res_send 200 (json_of_promise result), out_log = [],
           out_unhandled = rejection result\<rparr>
      | Inl error \<Rightarrow>
          \<lparr>out_response = res_sendStatus 404, out_log = [error], out_unhandled = None\<rparr>)"

subsection \<open>The responses the specification asks for\<close>

text \<open>
  The specification's table: 200 with the JSON array of hotels (fields \<open>id\<close>,
  \<open>name\<close>, \<open>image\<close>, \<open>createdAt\<close>, \<open>updatedAt\<close>) or with the hotel and its
  \<open>Rooms\<close> (\<open>null\<close> when there is none); 404 on any error of the service.
\<close>

definition hotel_json :: "hotel \<Rightarrow> json" where
  "hotel_json h = JObj [(''id'', JNum (hotel_id h)), (''name'', JStr (hotel_name h)),
     (''image'', JStr (hotel_image h)), (''createdAt'', JDate (hotel_createdAt h)),
     (''updatedAt'', JDate (hotel_updatedAt h))]"

definition room_json :: "room \<Rightarrow> json" where
  "room_json r = JObj [(''id'', JNum (room_id r)), (''name'', JStr (room_name r)),
     (''capacity'', JNum (room_capacity r)), (''hotelId'', JNum (room_hotelId r)),
     (''createdAt'', JDate (room_createdAt r)), (''updatedAt'', JDate (room_updatedAt r))]"

definition hotel_with_rooms_json :: "hotel_with_rooms \<Rightarrow> json" where
  "hotel_with_rooms_json h = JObj [(''id'', JNum (hotel_id h)), (''name'', JStr (hotel_name h)),
     (''image'', JStr (hotel_image h)), (''createdAt'', JDate (hotel_createdAt h)),
     (''updatedAt'', JDate (hotel_updatedAt h)), (''Rooms'', JArr (map room_json (Rooms h)))]"

definition spec_hotels_response :: "db \<Rightarrow> js_id \<Rightarrow> response" where
  "spec_hotels_response d u =
     (case await (hotelsService_getHotels d u) of
        Inr hs \<Rightarrow> res_send 200 (JArr (map hotel_json hs))
      | Inl _ \<Rightarrow> res_sendStatus 404)"

definition spec_hotel_response :: "db \<Rightarrow> js_id \<Rightarrow> string \<Rightarrow> response" where
  "spec_hotel_response d u hid =
     (case await (hotelsService_getHotelId d u (js_Number hid)) of
        Inr None \<Rightarrow> res_send 200 JNull
      | Inr (Some h) \<Rightarrow> res_send 200 (hotel_with_rooms_json h)
      | Inl _ \<Rightarrow> res_sendStatus 404)"

subsection \<open>What the handlers do\<close>

lemma getHotels_eval:
  "getHotels d u =
     \<lparr>out_response = res_send 200 (JObj []), out_log = [],
      out_unhandled = (case await (hotelsService_getHotels d u) of Inl e \<Rightarrow> Some e | Inr _ \<Rightarrow> None)\<rparr>"
  by (simp add: getHotels_def call_async_def hotelsService_getHotels_def)

lemma getHotelId_eval:
  "getHotelId d u hid =
     \<lparr>out_response = res_send 200 (JObj []), out_log = [],
      out_unhandled = (case await (hotelsService_getHotelId d u (js_Number hid)) of
                         Inl e \<Rightarrow> Some e | Inr _ \<Rightarrow> None)\<rparr>"
  by (simp add: getHotelId_def call_async_def hotelsService_getHotelId_def)

lemma res_send_neq_sendStatus [simp]: "res_send c j \<noteq> res_sendStatus c'"
  by (simp add: res_send_def res_sendStatus_def)

lemma res_send_eq_iff [simp]: "res_send c j = res_send c' j' \<longleftrightarrow> c = c' \<and> j = j'"
  by (simp add: res_send_def)

text \<open>
  C3. Every request that reaches a handler is answered with status 200 and the body
  \<open>{}\<close>, whatever the store, the user and the path: never the hotels, never the hotel,
  never 404, and the \<open>catch\<close> branch never logs.
\<close>

theorem handlers_always_200_empty_object:
  "out_response (getHotels d u) = \<lparr>res_status = 200, res_body = BJson (JObj [])\<rparr> \<and>
   out_response (getHotelId d u hid) = \<lparr>res_status = 200, res_body = BJson (JObj [])\<rparr> \<and>
   out_log (getHotels d u) = [] \<and> out_log (getHotelId d u hid) = []"
  by (simp add: getHotels_eval getHotelId_eval res_send_def)

text \<open>
  C4. A rejection of the service, which the specification maps to 404, is never
  handled: in both handlers the outcome carries it as an unhandled rejection, exactly
  when the service rejects (\<open>getHotelId\<close> calls the service with \<open>Number(hotelId)\<close>).
\<close>

theorem service_rejection_unhandled:
  "(out_unhandled (getHotels d u) = Some e \<longleftrightarrow> await (hotelsService_getHotels d u) = Inl e) \<and>
   (out_unhandled (getHotelId d u hid) = Some e \<longleftrightarrow>
      await (hotelsService_getHotelId d u (js_Number hid)) = Inl e)"
  by (simp add: getHotels_eval getHotelId_eval split: sum.splits)

end
