(* ===== verification/Auth.thy ===== *)
theory Auth
  imports Store
begin

text \<open>
  The authentication middleware \<open>authenticateToken\<close> of \<open>@/middlewares\<close>, which the
  router puts before both handlers. It is not among the repository's sources; it is
  modelled from the specification (a bearer token is turned into \<open>userId\<close>; a request
  without a token, with an invalid token, or with a token that has no session is
  rejected with 401 before any handler runs) and the three 401 tests of
  \<open>tests/integration/hotels.test.ts\<close>. The token is the second space-separated word of
  the \<open>Authorization\<close> header (\<open>authHeader.split(" ")[1]\<close>); the signature check
  \<open>jwt.verify(token, JWT_SECRET)\<close> is a parameter of the model, \<^term>\<open>jwt_verify\<close>,
  giving the payload's \<open>userId\<close> or nothing for a token it rejects; the session is
  looked up by token in the \<open>Session\<close> table.
\<close>

record auth_env =
  jwt_verify :: "string \<Rightarrow> js_id option"

datatype auth_failure = Unauthorized

definition findSessionByToken :: "db \<Rightarrow> string \<Rightarrow> session option" where
  "findSessionByToken d token = List.find (\<lambda>s. session_token s = token) (sessions d)"

definition authenticateToken :: "auth_env \<Rightarrow> db \<Rightarrow> string option \<Rightarrow> auth_failure + js_id" where
  "authenticateToken env d authHeader =
     (case authHeader of
        None \<Rightarrow> Inl Unauthorized
      | Some h \<Rightarrow>
          (case js_index (js_split CHR '' '' h) 1 of
             None \<Rightarrow> Inl Unauthorized
           | Some token \<Rightarrow>
               if token = [] then Inl Unauthorized
               else (case jwt_verify env token of
                       None \<Rightarrow> Inl Unauthorized
                     | Some userId \<Rightarrow>
                         (case findSessionByToken d token of
                            None \<Rightarrow> Inl Unauthorized
                          | Some _ \<Rightarrow> Inr userId))))"

lemma authenticateToken_sessions:
  "authenticateToken env d h = authenticateToken env (empty_db\<lparr>sessions := sessions d\<rparr>) h"
  unfolding authenticateToken_def findSessionByToken_def by (auto split: option.splits)

lemma authenticateToken_reads_sessions_only:
  assumes "sessions d' = sessions d"
  shows "authenticateToken env d' h = authenticateToken env d h"
  by (metis assms authenticateToken_sessions)

text \<open>A header \<open>Bearer <token>\<close> with a token without spaces yields that token.\<close>

lemma bearer_token:
  assumes "CHR '' '' \<notin> set tok"
  shows "js_index (js_split CHR '' '' (''Bearer '' @ tok)) 1 = Some tok"
proof -
  have "''Bearer '' @ tok = ''Bearer'' @ CHR '' '' # tok" by simp
  with js_split_two [of "CHR '' ''" "''Bearer''" tok] assms
  show ?thesis by simp
qed

lemma authenticateToken_bearer:
  assumes "CHR '' '' \<notin> set tok" and "tok \<noteq> []" and "jwt_verify env tok = Some uid"
    and "s \<in> set (sessions d)" and "session_token s = tok"
  shows "authenticateToken env d (Some (''Bearer '' @ tok)) = Inr uid"
proof -
  from assms(4,5) have "findSessionByToken d tok \<noteq> None"
    by (auto simp: findSessionByToken_def find_None_iff)
  with bearer_token [OF assms(1)] assms(2,3) show ?thesis
    by (auto simp: authenticateToken_def split: option.splits)
qed

end
