(* ===== verification/HotelsRouter.thy ===== *)
theory HotelsRouter
  imports HotelsController Auth
begin

text \<open>
  \<open>src/routers/hotels-router.ts\<close>: \<open>GET /\<close> runs \<open>authenticateToken\<close> then
  \<open>getHotels\<close>; \<open>GET /:hotelId\<close> runs \<open>authenticateToken\<close> then \<open>getHotelId\<close>. The
  router is mounted at \<open>/hotels\<close>; a request's path here is the part after the mount
  point. Express matches \<open>/\<close> against an empty path or a lone slash, and
  \<open>/:hotelId\<close> against a slash followed by a non-empty segment without slashes, with an
  optional trailing slash (non-strict routing); the segment is the parameter. The
  percent-decoding Express applies to the parameter is not modelled (paths are taken as
  decoded). A path neither route matches is passed on (\<^term>\<open>None\<close>): Express then answers
  404 itself, outside this router.
\<close>

datatype route = ListHotels | HotelById string

record request =
  req_path :: string
  req_authorization :: "string option"

definition route_of :: "string \<Rightarrow> route option" where
  "route_of p =
     (if p = [] \<or> p = ''/'' then Some ListHotels
      else case p of
        [] \<Rightarrow> None
      | c # rest \<Rightarrow>
          if c \<noteq> CHR ''/'' then None
          else (let seg = (if rest \<noteq> [] \<and> last rest = CHR ''/'' then butlast rest else rest)
                in if seg \<noteq> [] \<and> CHR ''/'' \<notin> set seg then Some (HotelById seg) else None))"

definition unauthorized_outcome :: controller_outcome where
  "unauthorized_outcome = \<lparr>out_response = res_sendStatus 401, out_log = [], out_unhandled = None\<rparr>"

definition hotelsRouter :: "auth_env \<Rightarrow> db \<Rightarrow> request \<Rightarrow> controller_outcome option" where
  "hotelsRouter env d req =
     (case route_of (req_path req) of
        None \<Rightarrow> None
      | Some r \<Rightarrow> Some
          (case authenticateToken env d (req_authorization req) of
             Inl Unauthorized \<Rightarrow> unauthorized_outcome
           | Inr userId \<Rightarrow>
               (case r of
                  ListHotels \<Rightarrow> getHotels d userId
                | HotelById hotelId \<Rightarrow> getHotelId d userId hotelId)))"

subsection \<open>Routing lemmas\<close>

lemma route_of_slash_segment:
  assumes "s \<noteq> []" and "CHR ''/'' \<notin> set s"
  shows "route_of (CHR ''/'' # s) = Some (HotelById s)"
proof -
  from last_in_set [OF assms(1)] assms(2) have "last s \<noteq> CHR ''/''" by metis
  with assms show ?thesis by (simp add: route_of_def)
qed

lemma toString_no_slash: "CHR ''/'' \<notin> set (js_int_toString i)"
  by (auto simp: js_int_toString_def dest: nat_digits_dec simp: is_dec_char_def)

lemma toString_nonempty: "js_int_toString i \<noteq> []"
  by (simp add: js_int_toString_def)

subsection \<open>Properties of the router\<close>

text \<open>
  C5. A request the middleware rejects is answered 401 by the router, and the answer
  reads nothing of the store but the sessions: it is the same on every store with the
  same sessions, whatever its enrollments, tickets and hotels.
\<close>

theorem unauthenticated_401_reads_sessions_only:
  assumes "route_of (req_path req) \<noteq> None"
    and "authenticateToken env d (req_authorization req) = Inl Unauthorized"
    and "sessions d' = sessions d"
  shows "hotelsRouter env d' req = Some unauthorized_outcome \<and>
         res_status (out_response unauthorized_outcome) = 401"
  using assms authenticateToken_reads_sessions_only [OF assms(3), of env "req_authorization req"]
  by (auto simp: hotelsRouter_def unauthorized_outcome_def res_sendStatus_def)

theorem unauthenticated_401_reads_sessions_only_witness:
  "hotelsRouter \<lparr>jwt_verify = (\<lambda>_. None)\<rparr> (ex_db 1 PAID [ex_hotel] [ex_room])
     \<lparr>req_path = ''/1'', req_authorization = None\<rparr> = Some unauthorized_outcome"
proof -
  have r: "route_of (req_path \<lparr>req_path = ''/1'', req_authorization = None\<rparr>) \<noteq> None"
    by (simp add: route_of_def)
  have a: "authenticateToken \<lparr>jwt_verify = (\<lambda>_. None)\<rparr> empty_db
      (req_authorization \<lparr>req_path = ''/1'', req_authorization = None\<rparr>) = Inl Unauthorized"
    by (simp add: authenticateToken_def)
  have s: "sessions (ex_db 1 PAID [ex_hotel] [ex_room]) = sessions empty_db"
    by (simp add: ex_db_def)
  from unauthenticated_401_reads_sessions_only [OF r a s] show ?thesis by simp
qed

text \<open>
  C17. An authenticated \<open>GET /hotels/<id>\<close>, with the id a safe integer (magnitude at
  most \<open>2^53\<close>, every id of the INT4 columns among them) written as JavaScript writes
  it, reaches \<open>getHotelId\<close> for the token's user, and \<open>Number\<close> in the controller gives
  the service that integer.
\<close>

theorem hotel_path_reaches_getHotelId:
  assumes "\<bar>i\<bar> \<le> 2 ^ 53"
    and "CHR '' '' \<notin> set tok" and "tok \<noteq> []" and "jwt_verify env tok = Some uid"
    and "s \<in> set (sessions d)" and "session_token s = tok"
  shows "hotelsRouter env d \<lparr>req_path = CHR ''/'' # js_int_toString i,
                            req_authorization = Some (''Bearer '' @ tok)\<rparr> =
           Some (getHotelId d uid (js_int_toString i)) \<and>
         js_Number (js_int_toString i) = JsInt i"
  using route_of_slash_segment [OF toString_nonempty toString_no_slash]
    authenticateToken_bearer [OF assms(2-6)] js_Number_of_toString [OF assms(1)]
  by (simp add: hotelsRouter_def)

theorem hotel_path_reaches_getHotelId_witness:
  "hotelsRouter \<lparr>jwt_verify = (\<lambda>t. if t = ''tk'' then Some 1 else None)\<rparr>
     (empty_db\<lparr>sessions := [\<lparr>session_id = 1, session_userId = 1, session_token = ''tk''\<rparr>]\<rparr>)
     \<lparr>req_path = CHR ''/'' # js_int_toString 42, req_authorization = Some (''Bearer '' @ ''tk'')\<rparr> =
   Some (getHotelId (empty_db\<lparr>sessions := [\<lparr>session_id = 1, session_userId = 1, session_token = ''tk''\<rparr>]\<rparr>)
     1 (js_int_toString 42)) \<and> js_Number (js_int_toString 42) = JsInt 42"
  using hotel_path_reaches_getHotelId [of 42 "''tk''" "\<lparr>jwt_verify = (\<lambda>t. if t = ''tk'' then Some 1 else None)\<rparr>"
      1 "\<lparr>session_id = 1, session_userId = 1, session_token = ''tk''\<rparr>"
      "empty_db\<lparr>sessions := [\<lparr>session_id = 1, session_userId = 1, session_token = ''tk''\<rparr>]\<rparr>"]
  by simp

end
