(* ===== verification/StoreWrites.thy ===== *)
theory StoreWrites
  imports Store
begin

text \<open>
  The writes that set the store up: Prisma's \<open>create\<close> on each model, as the test
  factories and the tests themselves call it, and \<open>cleanDb\<close>, which empties every table.
  A \<open>create\<close> takes the next value of its table's sequence as the id, stamps
  \<open>createdAt\<close>/\<open>updatedAt\<close> with the clock, and appends the row; it fails with a
  foreign-key error when a referenced row does not exist and with a unique-constraint
  error when a user would get a second enrollment. The id columns are INT4: once a
  table's sequence has passed \<^term>\<open>int4_max\<close>, \<open>nextval\<close> fails and so does the
  \<open>create\<close> (\<^term>\<open>apply_write\<close> is that check before the write \<^term>\<open>store_write\<close>).
  The one update the specification names is the ticket's status, which payment
  processing sets (\<open>prisma.ticket.update\<close> with \<open>where: { id }\<close>, failing when there is no
  such ticket). The program under verification never
  writes; these operations are what its reads run against. Every write keeps the
  schema's invariant \<^term>\<open>wf_db\<close>, the INT4 width of the ids included: that part rests on
  the sequence check of \<^term>\<open>apply_write\<close>.
\<close>

datatype db_error = ForeignKeyViolation | UniqueViolation | SequenceExhausted | RecordNotFound

definition stamp :: "table \<Rightarrow> db \<Rightarrow> db" where
  \<comment> \<open>advance the table's sequence and the clock\<close>
  "stamp t d = d\<lparr>seq := (seq d)(t := seq d t + 1), clock := clock d + 1\<rparr>"

datatype write_op =
    CreateUser string string
  | CreateSession js_id string
  | CreateEnrollment string string timestamp string js_id
  | CreateAddress string string string js_id
  | CreateTicketType string int bool bool
  | CreateTicket js_id js_id ticket_status
  | CreatePayment js_id int
  | CreateHotel string string
  | CreateRoom string int js_id
  | UpdateTicketStatus js_id ticket_status
  | CleanDb

fun store_write :: "write_op \<Rightarrow> db \<Rightarrow> db_error + db" where
  "store_write (CreateUser email pw) d =
     Inr (stamp TUser (d\<lparr>users := users d @
       [\<lparr>user_id = seq d TUser, user_email = email, user_password = pw\<rparr>]\<rparr>))"
| "store_write (CreateSession uid tok) d =
     (if uid \<notin> user_id ` set (users d) then Inl ForeignKeyViolation
      else Inr (stamp TSession (d\<lparr>sessions := sessions d @
        [\<lparr>session_id = seq d TSession, session_userId = uid, session_token = tok\<rparr>]\<rparr>)))"
| "store_write (CreateEnrollment name cpf birthday phone uid) d =
     (if uid \<notin> user_id ` set (users d) then Inl ForeignKeyViolation
      else if uid \<in> enrollment_userId ` set (enrollments d) then Inl UniqueViolation
      else Inr (stamp TEnrollment (d\<lparr>enrollments := enrollments d @
        [\<lparr>enrollment_id = seq d TEnrollment, enrollment_name = name, enrollment_cpf = cpf,
          enrollment_birthday = birthday, enrollment_phone = phone, enrollment_userId = uid\<rparr>]\<rparr>)))"
| "store_write (CreateAddress cep street city eid) d =
     (if eid \<notin> enrollment_id ` set (enrollments d) then Inl ForeignKeyViolation
      else Inr (stamp TAddress (d\<lparr>addresses := addresses d @
        [\<lparr>address_id = seq d TAddress, address_cep = cep, address_street = street,
          address_city = city, address_enrollmentId = eid\<rparr>]\<rparr>)))"
| "store_write (CreateTicketType name price remote withHotel) d =
     Inr (stamp TTicketType (d\<lparr>ticketTypes := ticketTypes d @
       [\<lparr>ticketType_id = seq d TTicketType, ticketType_name = name, ticketType_price = price,
         ticketType_isRemote = remote, ticketType_includesHotel = withHotel\<rparr>]\<rparr>))"
| "store_write (CreateTicket eid ttid st) d =
     (if eid \<notin> enrollment_id ` set (enrollments d) \<or> ttid \<notin> ticketType_id ` set (ticketTypes d)
      then Inl ForeignKeyViolation
      else Inr (stamp TTicket (d\<lparr>tickets := tickets d @
        [\<lparr>ticket_id = seq d TTicket, ticket_ticketTypeId = ttid, ticket_enrollmentId = eid,
          ticket_status = st\<rparr>]\<rparr>)))"
| "store_write (CreatePayment tid v) d =
     (if tid \<notin> ticket_id ` set (tickets d) then Inl ForeignKeyViolation
      else Inr (stamp TPayment (d\<lparr>payments := payments d @
        [\<lparr>payment_id = seq d TPayment, payment_ticketId = tid, payment_value = v\<rparr>]\<rparr>)))"
| "store_write (CreateHotel name img) d =
     Inr (stamp THotel (d\<lparr>hotels := hotels d @
       [\<lparr>hotel_id = seq d THotel, hotel_name = name, hotel_image = img,
         hotel_createdAt = clock d, hotel_updatedAt = clock d\<rparr>]\<rparr>))"
| "store_write (CreateRoom name cap hid) d =
     (if hid \<notin> hotel_id ` set (hotels d) then Inl ForeignKeyViolation
      else Inr (stamp TRoom (d\<lparr>rooms := rooms d @
        [\<lparr>room_id = seq d TRoom, room_name = name, room_capacity = cap, room_hotelId = hid,
          room_createdAt = clock d, room_updatedAt = clock d\<rparr>]\<rparr>)))"
| "store_write (UpdateTicketStatus tid st) d =
     (if tid \<notin> ticket_id ` set (tickets d) then Inl RecordNotFound
      else Inr (d\<lparr>tickets := map (\<lambda>t. if ticket_id t = tid then t\<lparr>ticket_status := st\<rparr> else t)
                                  (tickets d)\<rparr>))"
| "store_write CleanDb d =
     Inr (d\<lparr>users := [], sessions := [], enrollments := [], addresses := [], ticketTypes := [],
        tickets := [], payments := [], hotels := [], rooms := []\<rparr>)"

definition write_table :: "write_op \<Rightarrow> table option" where
  \<comment> \<open>the table whose sequence a \<open>create\<close> draws its id from\<close>
  "write_table w =
     (case w of
        CreateUser _ _ \<Rightarrow> Some TUser | CreateSession _ _ \<Rightarrow> Some TSession
      | CreateEnrollment _ _ _ _ _ \<Rightarrow> Some TEnrollment | CreateAddress _ _ _ _ \<Rightarrow> Some TAddress
      | CreateTicketType _ _ _ _ \<Rightarrow> Some TTicketType | CreateTicket _ _ _ \<Rightarrow> Some TTicket
      | CreatePayment _ _ \<Rightarrow> Some TPayment | CreateHotel _ _ \<Rightarrow> Some THotel
      | CreateRoom _ _ _ \<Rightarrow> Some TRoom | UpdateTicketStatus _ _ \<Rightarrow> None | CleanDb \<Rightarrow> None)"

definition apply_write :: "write_op \<Rightarrow> db \<Rightarrow> db_error + db" where
  \<comment> \<open>\<open>nextval\<close> of an INT4 sequence fails once the sequence has passed \<^term>\<open>int4_max\<close>\<close>
  "apply_write w d =
     (case write_table w of
        Some t \<Rightarrow> if int4_max < seq d t then Inl SequenceExhausted else store_write w d
      | None \<Rightarrow> store_write w d)"

fun run_writes :: "write_op list \<Rightarrow> db \<Rightarrow> db_error + db" where
  "run_writes [] d = Inr d"
| "run_writes (w # ws) d = (case apply_write w d of Inl e \<Rightarrow> Inl e | Inr d' \<Rightarrow> run_writes ws d')"

subsection \<open>Every write keeps the invariant\<close>

lemma ids_ok_step: "ids_ok k xs s \<Longrightarrow> ids_ok k xs (s + 1)"
  by (auto simp: ids_ok_def)

lemma refs_ok_insert [simp, intro]: "refs_ok fk xs T \<Longrightarrow> refs_ok fk xs (insert a T)"
  by (auto simp: refs_ok_def)

lemma ids_ok_Nil [simp]: "ids_ok k [] s"
  and refs_ok_Nil [simp]: "refs_ok fk [] T"
  by (simp_all add: ids_ok_def refs_ok_def)

lemma seq_stamp [simp]: "seq (stamp t d) = (seq d)(t := seq d t + 1)"
  and tables_stamp [simp]:
    "users (stamp t d) = users d" "sessions (stamp t d) = sessions d"
    "enrollments (stamp t d) = enrollments d" "addresses (stamp t d) = addresses d"
    "ticketTypes (stamp t d) = ticketTypes d" "tickets (stamp t d) = tickets d"
    "payments (stamp t d) = payments d" "hotels (stamp t d) = hotels d" "rooms (stamp t d) = rooms d"
  by (simp_all add: stamp_def)

lemma ids_ok_map: "ids_ok k xs s \<longleftrightarrow> distinct (map k xs) \<and> (\<forall>i \<in> set (map k xs). 0 < i \<and> i < s)"
  by (auto simp: ids_ok_def)

lemma refs_ok_map: "refs_ok k xs T \<longleftrightarrow> set (map k xs) \<subseteq> T"
  by (auto simp: refs_ok_def)

lemma ids_ok_cong: "map k xs = map k ys \<Longrightarrow> ids_ok k xs s \<longleftrightarrow> ids_ok k ys s"
  unfolding ids_ok_map by (simp only:)

lemma refs_ok_cong: "map k xs = map k ys \<Longrightarrow> refs_ok k xs T \<longleftrightarrow> refs_ok k ys T"
  unfolding refs_ok_map by (simp only:)

lemma image_cong_map: "map k xs = map k ys \<Longrightarrow> k ` set xs = k ` set ys"
  by (metis list.set_map)

lemma map_status_update:
  assumes "\<And>t. k (t\<lparr>ticket_status := st\<rparr>) = k t"
  shows "map k (map (\<lambda>t. if ticket_id t = tid then t\<lparr>ticket_status := st\<rparr> else t) ts) = map k ts"
  using assms by (induction ts) auto

lemma update_status_wf:
  assumes "wf_db d"
  shows "wf_db (d\<lparr>tickets := map (\<lambda>t. if ticket_id t = tid then t\<lparr>ticket_status := st\<rparr> else t)
                                   (tickets d)\<rparr>)"
proof -
  let ?ts = "map (\<lambda>t. if ticket_id t = tid then t\<lparr>ticket_status := st\<rparr> else t) (tickets d)"
  have i: "map ticket_id ?ts = map ticket_id (tickets d)"
    and e: "map ticket_enrollmentId ?ts = map ticket_enrollmentId (tickets d)"
    and y: "map ticket_ticketTypeId ?ts = map ticket_ticketTypeId (tickets d)"
    by (simp_all add: map_status_update)
  from assms show ?thesis
    unfolding wf_db_def
    by (simp add: ids_ok_cong [OF i] refs_ok_cong [OF e] refs_ok_cong [OF y] image_cong_map [OF i]
        del: set_map)
qed

lemma store_write_wf:
  assumes "wf_db d" and "store_write w d = Inr d'"
    and "\<And>t. write_table w = Some t \<Longrightarrow> seq d t \<le> int4_max"
  shows "wf_db d'"
proof -
  from assms(1) have pos: "0 < seq d t" for t by (simp add: wf_db_def)
  then have pos': "0 \<le> seq d t" for t by (simp add: order_less_imp_le)
  from assms show ?thesis
  proof (cases w)
    case CleanDb
    with assms show ?thesis by (auto simp: wf_db_def)
  next
    case (UpdateTicketStatus tid st)
    with assms show ?thesis by (auto simp: update_status_wf split: if_splits)
  qed (auto simp: wf_db_def write_table_def ids_ok_fresh ids_ok_step pos pos' split: if_splits)
qed

lemmas apply_write_simps = apply_write_def write_table_def int4_max_def

lemma apply_write_Inr: "apply_write w d = Inr d' \<Longrightarrow> store_write w d = Inr d'"
  by (auto simp: apply_write_def split: option.splits if_splits)

lemma apply_write_wf: "wf_db d \<Longrightarrow> apply_write w d = Inr d' \<Longrightarrow> wf_db d'"
  by (rule store_write_wf, assumption, erule apply_write_Inr)
     (auto simp: apply_write_def split: if_splits)

lemma run_writes_wf: "wf_db d \<Longrightarrow> run_writes ws d = Inr d' \<Longrightarrow> wf_db d'"
  by (induction ws arbitrary: d) (auto split: sum.splits dest: apply_write_wf)

end
