(* ===== verification/Server.thy ===== *)
theory Server
  imports HotelsRouter StoreWrites
begin

text \<open>
  The running application as a state machine. Its state is the store, the responses
  sent so far and the promise rejections no handler caught. A step is either a write to
  the store (a test fixture, or any other client of the database) or one request routed
  by \<open>hotelsRouter\<close>; which step comes next is not determined, so the steps form an
  inductive relation, and any interleaving of writes and requests is a run. The
  specification's concurrency model (requests independent, the store the only shared
  state) is the interleaving of these steps.
\<close>

record server =
  srv_db :: db
  srv_responses :: "response list"
  srv_unhandled :: "js_error list"

definition init_server :: server where
  "init_server = \<lparr>srv_db = empty_db, srv_responses = [], srv_unhandled = []\<rparr>"

definition serve :: "auth_env \<Rightarrow> request \<Rightarrow> server \<Rightarrow> server option" where
  "serve env req s =
     map_option (\<lambda>out. s\<lparr>srv_responses := srv_responses s @ [out_response out],
                         srv_unhandled := srv_unhandled s @
                           (case out_unhandled out of None \<Rightarrow> [] | Some e \<Rightarrow> [e])\<rparr>)
       (hotelsRouter env (srv_db s) req)"

inductive server_step :: "auth_env \<Rightarrow> server \<Rightarrow> server \<Rightarrow> bool" for env where
  write_step: "apply_write w (srv_db s) = Inr d' \<Longrightarrow> server_step env s (s\<lparr>srv_db := d'\<rparr>)"
| request_step: "serve env req s = Some t \<Longrightarrow> server_step env s t"

inductive reachable :: "auth_env \<Rightarrow> server \<Rightarrow> bool" for env where
  init: "reachable env init_server"
| step: "reachable env s \<Longrightarrow> server_step env s t \<Longrightarrow> reachable env t"

inductive_cases server_stepE: "server_step env s t"

definition the_write :: "write_op \<Rightarrow> db \<Rightarrow> db" where
  "the_write w d = (case apply_write w d of Inr d' \<Rightarrow> d' | Inl _ \<Rightarrow> d)"

definition ok_response :: "response \<Rightarrow> bool" where
  \<comment> \<open>what the router can send: \<open>200 {}\<close> or \<open>401\<close>\<close>
  "ok_response r \<longleftrightarrow> r = res_send 200 (JObj []) \<or> r = res_sendStatus 401"

definition ex_env :: auth_env where
  "ex_env = \<lparr>jwt_verify = (\<lambda>_. None)\<rparr>"

definition ex_run_state :: server where
  \<comment> \<open>a user is created, then \<open>GET /hotels\<close> arrives without a token\<close>
  "ex_run_state = the (serve ex_env \<lparr>req_path = ''/'', req_authorization = None\<rparr>
     (init_server\<lparr>srv_db := the_write (CreateUser ''a@b.c'' ''pw'') empty_db\<rparr>))"

subsection \<open>Step lemmas\<close>

lemma hotelsRouter_response:
  "hotelsRouter env d req = Some out \<Longrightarrow> ok_response (out_response out)"
  by (auto simp: hotelsRouter_def ok_response_def unauthorized_outcome_def getHotels_eval
      getHotelId_eval split: option.splits sum.splits auth_failure.splits route.splits)

lemma serve_Some:
  assumes "serve env req s = Some t"
  obtains out where "hotelsRouter env (srv_db s) req = Some out"
    and "t = s\<lparr>srv_responses := srv_responses s @ [out_response out],
               srv_unhandled := srv_unhandled s @
                 (case out_unhandled out of None \<Rightarrow> [] | Some e \<Rightarrow> [e])\<rparr>"
  using assms by (cases "hotelsRouter env (srv_db s) req") (auto simp: serve_def)

lemma step_wf:
  assumes "server_step env s t" and "wf_db (srv_db s)"
  shows "wf_db (srv_db t)"
  using assms(1)
proof cases
  case (write_step w d')
  with apply_write_wf [OF assms(2)] show ?thesis by simp
next
  case (request_step req)
  then obtain out where "hotelsRouter env (srv_db s) req = Some out"
    and t: "t = s\<lparr>srv_responses := srv_responses s @ [out_response out],
      srv_unhandled := srv_unhandled s @ (case out_unhandled out of None \<Rightarrow> [] | Some e \<Rightarrow> [e])\<rparr>"
    by (rule serve_Some)
  from assms(2) t show ?thesis by simp
qed

lemma step_responses:
  assumes "server_step env s t" and "\<forall>r \<in> set (srv_responses s). ok_response r"
  shows "\<forall>r \<in> set (srv_responses t). ok_response r"
  using assms(1)
proof cases
  case (write_step w d')
  with assms(2) show ?thesis by simp
next
  case (request_step req)
  then obtain out where out: "hotelsRouter env (srv_db s) req = Some out"
    and t: "t = s\<lparr>srv_responses := srv_responses s @ [out_response out],
      srv_unhandled := srv_unhandled s @ (case out_unhandled out of None \<Rightarrow> [] | Some e \<Rightarrow> [e])\<rparr>"
    by (rule serve_Some)
  from hotelsRouter_response [OF out] assms(2) t show ?thesis by simp
qed

subsection \<open>Invariants of every run\<close>

text \<open>
  In every state reachable by any interleaving of writes and requests, the store
  satisfies the schema's invariant: unique ids below their sequences, one enrollment per
  user, every foreign key naming an existing row.
\<close>

theorem reachable_wf_db:
  assumes "reachable env s"
  shows "wf_db (srv_db s)"
  using assms
proof (induction rule: reachable.induct)
  case init
  then show ?case by (simp add: init_server_def wf_empty_db)
next
  case (step s t)
  show ?case by (rule step_wf [OF step.hyps(2) step.IH])
qed

text \<open>
  In every reachable state, every response the router has sent is \<open>200 {}\<close> or
  \<open>401\<close>: no run of the application ever answers with hotel data or with 404.
\<close>

theorem reachable_responses_200_or_401:
  assumes "reachable env s"
  shows "\<forall>r \<in> set (srv_responses s). ok_response r"
  using assms
proof (induction rule: reachable.induct)
  case init
  then show ?case by (simp add: init_server_def)
next
  case (step s t)
  show ?case by (rule step_responses [OF step.hyps(2) step.IH])
qed

lemma ex_run_reachable: "reachable ex_env ex_run_state"
proof -
  let ?s1 = "init_server\<lparr>srv_db := the_write (CreateUser ''a@b.c'' ''pw'') empty_db\<rparr>"
  have w: "apply_write (CreateUser ''a@b.c'' ''pw'') (srv_db init_server) =
      Inr (the_write (CreateUser ''a@b.c'' ''pw'') empty_db)"
    by (simp add: the_write_def init_server_def apply_write_simps empty_db_def)
  have r1: "reachable ex_env ?s1"
    using reachable.step [OF reachable.init server_step.write_step [OF w]] by simp
  have "serve ex_env \<lparr>req_path = ''/'', req_authorization = None\<rparr> ?s1 = Some ex_run_state"
    by (simp add: ex_run_state_def serve_def hotelsRouter_def route_of_def authenticateToken_def)
  from reachable.step [OF r1 server_step.request_step [OF this]] show ?thesis .
qed

theorem reachable_wf_db_witness: "wf_db (srv_db ex_run_state)"
  by (rule reachable_wf_db [OF ex_run_reachable])

theorem reachable_responses_200_or_401_witness:
  "srv_responses ex_run_state = [res_sendStatus 401] \<and> ok_response (res_sendStatus 401)"
proof -
  have "srv_responses ex_run_state = [res_sendStatus 401]"
    by (simp add: ex_run_state_def serve_def hotelsRouter_def route_of_def authenticateToken_def
        init_server_def unauthorized_outcome_def ex_env_def)
  with reachable_responses_200_or_401 [OF ex_run_reachable] show ?thesis by simp
qed

end
