(* ===== verification/TestScenarios.thy ===== *)
theory TestScenarios
  imports Server
begin

text \<open>
  The fourteen tests of \<open>tests/integration/hotels.test.ts\<close> as runs of the application model:
  the arrange step is a list of writes (\<open>createUser\<close>, \<open>generateValidToken\<close> with its
  session, \<open>createEnrollmentWithAddress\<close>, \<open>createTicketHotel\<close> or \<open>createTicketRemote\<close>,
  \<open>createTicket(..., PAID)\<close>, \<open>createPayment\<close>, and for the hotel test
  \<open>prisma.hotel.create\<close>, \<open>prisma.room.create\<close>) applied by \<^term>\<open>run_writes\<close> to a store
  \<open>cleanDb\<close> has emptied, and the act step is one request through \<^term>\<open>serve\<close>. Each
  test runs in isolation, so the sequences start at 1 and the rows created get id 1; the
  token the test signs is \<open>tok\<close>, which \<^term>\<open>test_env\<close>'s \<open>jwt_verify\<close> maps to the
  user's id. Every run is a reachable state of the application, so the invariants of
  \<open>Server\<close> hold in it. For each test the theorem gives what the code sends and what the
  specification requires, to be compared with the test's expectation.
\<close>

definition test_env :: auth_env where
  "test_env = \<lparr>jwt_verify = (\<lambda>t. if t = ''tok'' then Some 1 else None)\<rparr>"

definition arrange_paid_ticket :: "bool \<Rightarrow> write_op list" where
  \<comment> \<open>a user with a session, an enrollment with address and a paid ticket, remote or with hotel\<close>
  "arrange_paid_ticket remote =
     [CreateUser ''user@test'' ''pw'', CreateSession 1 ''tok'',
      CreateEnrollment ''Name'' ''12345678901'' 0 ''21999999999'' 1,
      CreateAddress ''12345678'' ''Street'' ''City'' 1,
      (if remote then CreateTicketType ''Remote'' 300 True False
       else CreateTicketType ''Hotel'' 600 False True),
      CreateTicket 1 1 PAID, CreatePayment 1 (if remote then 300 else 600)]"

definition arrange_hotel_with_room :: "write_op list" where
  "arrange_hotel_with_room =
     arrange_paid_ticket False @ [CreateHotel ''Copacabana Pallace'' ''img'', CreateRoom ''Cobertura'' 3 1]"

definition test_request :: "string \<Rightarrow> request" where
  "test_request p = \<lparr>req_path = p, req_authorization = Some (''Bearer '' @ ''tok'')\<rparr>"

definition run_test :: "write_op list \<Rightarrow> request \<Rightarrow> server option" where
  "run_test ws req =
     (case run_writes ws (srv_db init_server) of
        Inl _ \<Rightarrow> None
      | Inr d \<Rightarrow> serve test_env req (init_server\<lparr>srv_db := d\<rparr>))"

definition arrange_hotel :: "write_op list" where
  \<comment> \<open>the paid ticket with hotel, and the hotel \<open>Copacabana Pallace\<close> without rooms\<close>
  "arrange_hotel = arrange_paid_ticket False @ [CreateHotel ''Copacabana Pallace'' ''img'']"

definition arrange_no_enrollment :: "write_op list" where
  \<comment> \<open>a user with a session and a remote ticket type, but no enrollment\<close>
  "arrange_no_enrollment =
     [CreateUser ''user@test'' ''pw'', CreateSession 1 ''tok'', CreateTicketType ''Remote'' 300 True False]"

definition anonymous_request :: "string \<Rightarrow> request" where
  \<comment> \<open>\<open>server.get(path)\<close> without an \<open>Authorization\<close> header\<close>
  "anonymous_request p = \<lparr>req_path = p, req_authorization = None\<rparr>"

definition invalid_token_request :: "string \<Rightarrow> request" where
  \<comment> \<open>a bearer token that is a word of \<open>faker.lorem\<close>, which \<open>jwt.verify\<close> rejects\<close>
  "invalid_token_request p = \<lparr>req_path = p, req_authorization = Some (''Bearer '' @ ''lorem'')\<rparr>"

definition arranged_db :: "write_op list \<Rightarrow> db" where
  "arranged_db ws = (case run_writes ws empty_db of Inr d \<Rightarrow> d | Inl _ \<Rightarrow> empty_db)"

definition test_result :: "write_op list \<Rightarrow> request \<Rightarrow> (response list \<times> js_error list) option" where
  \<comment> \<open>the responses and the unhandled rejections of one test's run\<close>
  "test_result ws req = map_option (\<lambda>s. (srv_responses s, srv_unhandled s)) (run_test ws req)"

lemma run_writes_reachable:
  "reachable env s \<Longrightarrow> run_writes ws (srv_db s) = Inr d \<Longrightarrow> reachable env (s\<lparr>srv_db := d\<rparr>)"
proof (induction ws arbitrary: s)
  case Nil
  then have "s\<lparr>srv_db := d\<rparr> = s" by simp
  with Nil.prems(1) show ?case by (simp only:)
next
  case (Cons w ws)
  then obtain d1 where w: "apply_write w (srv_db s) = Inr d1"
    and ws: "run_writes ws d1 = Inr d" by (auto split: sum.splits)
  have "reachable env (s\<lparr>srv_db := d1\<rparr>)"
    by (rule reachable.step [OF Cons.prems(1) server_step.write_step [OF w]])
  from Cons.IH [OF this] ws show ?case by simp
qed

lemma run_test_reachable:
  assumes "run_test ws req = Some s"
  shows "reachable test_env s"
proof -
  from assms obtain d where d: "run_writes ws (srv_db init_server) = Inr d"
    and s: "serve test_env req (init_server\<lparr>srv_db := d\<rparr>) = Some s"
    by (auto simp: run_test_def split: sum.splits)
  have "reachable test_env (init_server\<lparr>srv_db := d\<rparr>)"
    using run_writes_reachable [OF reachable.init d] by simp
  from reachable.step [OF this server_step.request_step [OF s]] show ?thesis .
qed

lemmas run_test_simps = run_test_def init_server_def empty_db_def stamp_def test_request_def apply_write_simps in_int4_def
  test_result_def anonymous_request_def invalid_token_request_def arranged_db_def
  serve_def hotelsRouter_def route_of_def authenticateToken_def test_env_def findSessionByToken_def js_split_def

lemmas spec_simps = hotelsService_getHotels_def hotelsService_getHotelId_def findWithAddressByUserId_def
  findTicketByEnrollmentId_def hotelsRepository_getHotels_def ticket_qualifies_def resolved_def async_return_def

lemma dec_char_1: "dec_char (Suc 0) = CHR ''1''"
proof -
  have "(of_char (dec_char (Suc 0)) :: nat) = of_char CHR ''1''" by simp
  then show ?thesis by (simp only: of_char_eq_iff)
qed

lemma toString_1: "js_int_toString 1 = ''1''"
  by (simp add: js_int_toString_def nat_digits.simps dec_char_1)

lemma Number_1: "js_Number ''1'' = JsInt 1"
  using js_Number_of_toString [of 1] by (simp add: toString_1)

subsection \<open>The tests\<close>

text \<open>
  The test \<open>should respond with status 200 and get:hotels\<close> (a paid ticket with hotel,
  no hotel in the store; expects 200 and the body \<open>[]\<close>): the run is reachable, the code
  answers 200 with the body \<open>{}\<close>, not \<open>[]\<close>, while the specification's response is
  200 with \<open>[]\<close>, as the test expects. The test \<open>should respond with status 200 and a
  empty array for no break on server\<close> (the same with the hotel \<open>Copacabana Pallace\<close>):
  the code answers \<open>200 {}\<close> again, the specification the array of that one hotel.
\<close>

theorem get_hotels_test:
  "(\<exists>s. run_test (arrange_paid_ticket False) (test_request ''/'') = Some s \<and>
       reachable test_env s \<and> srv_responses s = [res_send 200 (JObj [])] \<and> srv_unhandled s = [] \<and>
       spec_hotels_response (srv_db s) 1 = res_send 200 (JArr [])) \<and>
   test_result arrange_hotel (test_request ''/'') = Some ([res_send 200 (JObj [])], []) \<and>
   spec_hotels_response (arranged_db arrange_hotel) 1 =
     res_send 200 (JArr [JObj [(''id'', JNum 1), (''name'', JStr ''Copacabana Pallace''),
       (''image'', JStr ''img''), (''createdAt'', JDate 7), (''updatedAt'', JDate 7)]])"
proof -
  define s where "s = the (run_test (arrange_paid_ticket False) (test_request ''/''))"
  have r: "run_test (arrange_paid_ticket False) (test_request ''/'') = Some s"
    unfolding s_def by (simp add: run_test_simps arrange_paid_ticket_def)
  have "srv_responses s = [res_send 200 (JObj [])]"
    unfolding s_def by (simp add: run_test_simps arrange_paid_ticket_def getHotels_eval)
  moreover have "srv_unhandled s = []"
    unfolding s_def by (simp add: run_test_simps arrange_paid_ticket_def getHotels_eval spec_simps)
  moreover have "spec_hotels_response (srv_db s) 1 = res_send 200 (JArr [])"
    unfolding s_def by (simp add: run_test_simps arrange_paid_ticket_def spec_hotels_response_def spec_simps)
  ultimately have "\<exists>s. run_test (arrange_paid_ticket False) (test_request ''/'') = Some s \<and>
       reachable test_env s \<and> srv_responses s = [res_send 200 (JObj [])] \<and> srv_unhandled s = [] \<and>
       spec_hotels_response (srv_db s) 1 = res_send 200 (JArr [])"
    using r run_test_reachable [OF r] by blast
  moreover have "test_result arrange_hotel (test_request ''/'') = Some ([res_send 200 (JObj [])], [])"
    by (simp add: run_test_simps arrange_hotel_def arrange_paid_ticket_def getHotels_eval spec_simps)
  moreover have "spec_hotels_response (arranged_db arrange_hotel) 1 =
     res_send 200 (JArr [JObj [(''id'', JNum 1), (''name'', JStr ''Copacabana Pallace''),
       (''image'', JStr ''img''), (''createdAt'', JDate 7), (''updatedAt'', JDate 7)]])"
    by (simp add: run_test_simps arrange_hotel_def arrange_paid_ticket_def spec_hotels_response_def
        spec_simps hotel_json_def)
  ultimately show ?thesis by blast
qed

text \<open>
  The two tests \<open>should respond with status 402 when is remote\<close> (a paid remote
  ticket), for \<open>GET /hotels\<close> and \<open>GET /hotels/1\<close>: the code answers 200 with \<open>{}\<close>
  and leaves the service's \<open>NotFoundError\<close> unhandled; the specification answers 404;
  neither is the 402 the tests expect.
\<close>

theorem remote_ticket_test:
  "(\<exists>s. run_test (arrange_paid_ticket True) (test_request ''/'') = Some s \<and>
       reachable test_env s \<and> srv_responses s = [res_send 200 (JObj [])] \<and>
       srv_unhandled s = [NotFoundError] \<and> spec_hotels_response (srv_db s) 1 = res_sendStatus 404) \<and>
   test_result (arrange_paid_ticket True) (test_request ''/1'') =
     Some ([res_send 200 (JObj [])], [NotFoundError]) \<and>
   spec_hotel_response (arranged_db (arrange_paid_ticket True)) 1 ''1'' = res_sendStatus 404"
proof -
  define s where "s = the (run_test (arrange_paid_ticket True) (test_request ''/''))"
  have r: "run_test (arrange_paid_ticket True) (test_request ''/'') = Some s"
    unfolding s_def by (simp add: run_test_simps arrange_paid_ticket_def)
  have "srv_responses s = [res_send 200 (JObj [])]"
    unfolding s_def by (simp add: run_test_simps arrange_paid_ticket_def getHotels_eval)
  moreover have "srv_unhandled s = [NotFoundError]"
    unfolding s_def by (simp add: run_test_simps arrange_paid_ticket_def getHotels_eval spec_simps)
  moreover have "spec_hotels_response (srv_db s) 1 = res_sendStatus 404"
    unfolding s_def by (simp add: run_test_simps arrange_paid_ticket_def spec_hotels_response_def spec_simps)
  ultimately have "\<exists>s. run_test (arrange_paid_ticket True) (test_request ''/'') = Some s \<and>
       reachable test_env s \<and> srv_responses s = [res_send 200 (JObj [])] \<and>
       srv_unhandled s = [NotFoundError] \<and> spec_hotels_response (srv_db s) 1 = res_sendStatus 404"
    using r run_test_reachable [OF r] by blast
  moreover have "test_result (arrange_paid_ticket True) (test_request ''/1'') =
      Some ([res_send 200 (JObj [])], [NotFoundError])"
    by (simp add: run_test_simps arrange_paid_ticket_def serve_def hotelsRouter_def route_of_def
        authenticateToken_def test_env_def findSessionByToken_def js_split_def getHotelId_eval
        spec_simps Number_1)
  moreover have "spec_hotel_response (arranged_db (arrange_paid_ticket True)) 1 ''1'' = res_sendStatus 404"
    by (simp add: run_test_simps arrange_paid_ticket_def spec_hotel_response_def spec_simps Number_1)
  ultimately show ?thesis by blast
qed

text \<open>
  The test \<open>should respond with status 200 and a hotel\<close> (a paid ticket with hotel, the
  hotel \<open>Copacabana Pallace\<close> with the room \<open>Cobertura\<close>, \<open>GET /hotels/${hotel.id}\<close>):
  the code answers 200 with \<open>{}\<close>; the specification answers 200 with the hotel and
  its one room.
\<close>

theorem hotel_by_id_test:
  "\<exists>s. run_test arrange_hotel_with_room (test_request (''/'' @ js_int_toString 1)) = Some s \<and>
       reachable test_env s \<and> srv_responses s = [res_send 200 (JObj [])] \<and> srv_unhandled s = [] \<and>
       spec_hotel_response (srv_db s) 1 (js_int_toString 1) =
         res_send 200 (JObj [(''id'', JNum 1), (''name'', JStr ''Copacabana Pallace''),
           (''image'', JStr ''img''), (''createdAt'', JDate 7), (''updatedAt'', JDate 7),
           (''Rooms'', JArr [JObj [(''id'', JNum 1), (''name'', JStr ''Cobertura''),
              (''capacity'', JNum 3), (''hotelId'', JNum 1), (''createdAt'', JDate 8),
              (''updatedAt'', JDate 8)]])])"
proof -
  define s where "s = the (run_test arrange_hotel_with_room (test_request (''/'' @ js_int_toString 1)))"
  have r: "run_test arrange_hotel_with_room (test_request (''/'' @ js_int_toString 1)) = Some s"
    unfolding s_def by (simp add: toString_1 run_test_simps arrange_hotel_with_room_def arrange_paid_ticket_def)
  have "srv_responses s = [res_send 200 (JObj [])]"
    unfolding s_def
    by (simp add: toString_1 run_test_simps arrange_hotel_with_room_def arrange_paid_ticket_def getHotelId_eval)
  moreover have "srv_unhandled s = []"
    unfolding s_def
    by (simp add: toString_1 toString_1 Number_1 run_test_simps arrange_hotel_with_room_def
        arrange_paid_ticket_def getHotelId_eval spec_simps)
  moreover have "spec_hotel_response (srv_db s) 1 (js_int_toString 1) =
         res_send 200 (JObj [(''id'', JNum 1), (''name'', JStr ''Copacabana Pallace''),
           (''image'', JStr ''img''), (''createdAt'', JDate 7), (''updatedAt'', JDate 7),
           (''Rooms'', JArr [JObj [(''id'', JNum 1), (''name'', JStr ''Cobertura''),
              (''capacity'', JNum 3), (''hotelId'', JNum 1), (''createdAt'', JDate 8),
              (''updatedAt'', JDate 8)]])])"
    unfolding s_def
    by (simp add: toString_1 Number_1 run_test_simps arrange_hotel_with_room_def
        arrange_paid_ticket_def spec_hotel_response_def spec_simps hotel_with_rooms_json_def room_json_def with_rooms_def
        rooms_of_def)
  ultimately show ?thesis using r run_test_reachable [OF r] by blast
qed

text \<open>
  The six 401 tests, for \<open>GET /hotels\<close> and \<open>GET /hotels/1\<close> each: no token, a
  token \<open>jwt.verify\<close> rejects, and a valid token of a user without a session. Each run
  is answered 401 and leaves no unhandled rejection, as the tests expect.
\<close>

theorem unauthorized_tests:
  "test_result [] (anonymous_request ''/'') = Some ([res_sendStatus 401], []) \<and>
   test_result [] (anonymous_request ''/1'') = Some ([res_sendStatus 401], []) \<and>
   test_result [] (invalid_token_request ''/'') = Some ([res_sendStatus 401], []) \<and>
   test_result [] (invalid_token_request ''/1'') = Some ([res_sendStatus 401], []) \<and>
   test_result [CreateUser ''user@test'' ''pw''] (test_request ''/'') = Some ([res_sendStatus 401], []) \<and>
   test_result [CreateUser ''user@test'' ''pw''] (test_request ''/1'') = Some ([res_sendStatus 401], [])"
  by (simp add: run_test_simps serve_def hotelsRouter_def route_of_def authenticateToken_def
      test_env_def findSessionByToken_def js_split_def unauthorized_outcome_def)

text \<open>
  The two tests \<open>should respond with status 404 when is no enroll\<close> (a user with a
  session and a remote ticket type, no enrollment), for \<open>GET /hotels\<close> and
  \<open>GET /hotels/1\<close>: the code answers \<open>200 {}\<close> and leaves the \<open>TypeError\<close> of
  \<open>(await enroll).id\<close> unhandled; the specification answers 404; the tests expect 402.
\<close>

theorem no_enrollment_tests:
  "test_result arrange_no_enrollment (test_request ''/'') = Some ([res_send 200 (JObj [])], [TypeError]) \<and>
   test_result arrange_no_enrollment (test_request ''/1'') = Some ([res_send 200 (JObj [])], [TypeError]) \<and>
   spec_hotels_response (arranged_db arrange_no_enrollment) 1 = res_sendStatus 404 \<and>
   spec_hotel_response (arranged_db arrange_no_enrollment) 1 ''1'' = res_sendStatus 404"
  by (simp add: run_test_simps arrange_no_enrollment_def serve_def hotelsRouter_def route_of_def
      authenticateToken_def test_env_def findSessionByToken_def js_split_def getHotels_eval
      getHotelId_eval spec_simps spec_hotels_response_def spec_hotel_response_def Number_1)

end
