(* ===== verification/ServiceTasks.thy ===== *)
theory ServiceTasks
  imports HotelsService StoreWrites
begin

text \<open>
  The service operations as the sequence of suspensions they are. Each of
  \<open>getHotels\<close> and \<open>getHotelId\<close> of \<open>src/services/hotels-service/index.ts\<close> reads the
  store three times and waits for each read: the enrollment (\<open>await enroll\<close>, line 13 and
  line 30), the ticket of the enrollment (the outer \<open>await\<close> of the same lines), and the
  hotels (lines 19 and 36). Between two reads the event loop runs other code, and other
  clients write the store; so each read sees the store at the moment it runs, and the
  three reads of one call may see three different stores. A call in flight is a
  record \<open>task\<close>: the operation, the user and the point it waits at;
  \<open>task_step d\<close> runs it up to its next suspension against the store \<open>d\<close>. The
  specification accepts that the reads are not one snapshot (section 4.1); the theorems
  say what that allows: with no write between the reads a call computes exactly the
  atomic service of \<open>HotelsService\<close>, every call settles after at most three reads
  whatever is written in between, and a write between the ticket read and the hotel read
  can give a result the service gives on none of the stores the call saw.
\<close>

datatype service_call = CallGetHotels | CallGetHotelId js_number

datatype service_value = VHotels "hotel list" | VHotel "hotel_with_rooms option"

datatype phase =
    AwaitEnroll
  | AwaitTicket js_id
  | AwaitRead
  | Settled "js_error + service_value"

record task =
  task_call :: service_call
  task_user :: js_id
  task_phase :: phase

definition start_task :: "db \<Rightarrow> service_call \<Rightarrow> js_id \<Rightarrow> task" where
  \<comment> \<open>the synchronous part of the call: the query is issued and \<open>if(!enroll)\<close> tests the promise\<close>
  "start_task d c u =
     \<lparr>task_call = c, task_user = u,
      task_phase = (let enroll = (resolved (findWithAddressByUserId d u) :: (js_error, _) promise) in
                    if \<not> truthy_promise enroll then Settled (Inl NotFoundError) else AwaitEnroll)\<rparr>"

definition service_read :: "db \<Rightarrow> service_call \<Rightarrow> js_error + service_value" where
  \<comment> \<open>\<open>await hotelsRepository.getHotels()\<close> or \<open>await hotelsRepository.getRoomsHotelId(hotelId)\<close>\<close>
  "service_read d c =
     (case c of
        CallGetHotels \<Rightarrow> js_bind (await (repo_getHotels hotelsRepository d)) (\<lambda>hotels. Inr (VHotels hotels))
      | CallGetHotelId hotelId \<Rightarrow>
          js_bind (await (repo_getRoomsHotelId hotelsRepository d hotelId)) (\<lambda>hotels. Inr (VHotel hotels)))"

fun phase_step :: "db \<Rightarrow> service_call \<Rightarrow> js_id \<Rightarrow> phase \<Rightarrow> phase" where
  "phase_step d c u AwaitEnroll =
     (case findWithAddressByUserId d u of
        None \<Rightarrow> Settled (Inl TypeError)
      | Some (e, _) \<Rightarrow> AwaitTicket (enrollment_id e))"
| "phase_step d c u (AwaitTicket eid) =
     (if ticket_rejected (findTicketByEnrollmentId d eid) then Settled (Inl NotFoundError)
      else AwaitRead)"
| "phase_step d c u AwaitRead = Settled (service_read d c)"
| "phase_step d c u (Settled r) = Settled r"

definition task_step :: "db \<Rightarrow> task \<Rightarrow> task" where
  "task_step d t = t\<lparr>task_phase := phase_step d (task_call t) (task_user t) (task_phase t)\<rparr>"

definition task_fail :: "task \<Rightarrow> task" where
  \<comment> \<open>the read the call waits at rejects: the database cannot be reached\<close>
  "task_fail t = t\<lparr>task_phase := Settled (Inl PrismaConnectionError)\<rparr>"

fun run_task :: "db list \<Rightarrow> task \<Rightarrow> task" where
  "run_task [] t = t"
| "run_task (d # ds) t = run_task ds (task_step d t)"

fun settled :: "phase \<Rightarrow> bool" where
  "settled (Settled _) = True"
| "settled _ = False"

fun phase_rank :: "phase \<Rightarrow> nat" where
  "phase_rank AwaitEnroll = 3"
| "phase_rank (AwaitTicket _) = 2"
| "phase_rank AwaitRead = 1"
| "phase_rank (Settled _) = 0"

definition service_result :: "db \<Rightarrow> service_call \<Rightarrow> js_id \<Rightarrow> js_error + service_value" where
  \<comment> \<open>the settlement of the atomic service of \<open>HotelsService\<close>, in the task's value type\<close>
  "service_result d c u =
     (case c of
        CallGetHotels \<Rightarrow> map_sum id VHotels (await (hotelsService_getHotels d u))
      | CallGetHotelId h \<Rightarrow> map_sum id VHotel (await (hotelsService_getHotelId d u h)))"

definition ex_db_cleaned :: db where
  \<comment> \<open>the store of \<open>ex_db\<close> after \<open>cleanDb\<close>: every table empty, the sequences kept\<close>
  "ex_db_cleaned = (ex_db 1 PAID [ex_hotel] [])\<lparr>users := [], sessions := [], enrollments := [],
     addresses := [], ticketTypes := [], tickets := [], payments := [], hotels := [], rooms := []\<rparr>"

subsection \<open>Step lemmas\<close>

lemma start_task_phase [simp]: "task_phase (start_task d c u) = AwaitEnroll"
  by (simp add: start_task_def)

lemma start_task_fields [simp]:
  "task_call (start_task d c u) = c" "task_user (start_task d c u) = u"
  by (simp_all add: start_task_def)

lemma task_step_fields [simp]:
  "task_call (task_step d t) = task_call t" "task_user (task_step d t) = task_user t"
  "task_phase (task_step d t) = phase_step d (task_call t) (task_user t) (task_phase t)"
  by (simp_all add: task_step_def)

lemma phase_rank_step:
  "\<not> settled p \<Longrightarrow> phase_rank (phase_step d c u p) < phase_rank p"
  by (cases p) (auto split: option.splits)

lemma settled_rank: "settled p \<longleftrightarrow> phase_rank p = 0"
  by (cases p) simp_all

lemma settled_step [simp]: "settled p \<Longrightarrow> phase_step d c u p = p"
  by (cases p) simp_all

lemma run_task_rank:
  "phase_rank (task_phase t) \<le> length ds \<Longrightarrow> settled (task_phase (run_task ds t))"
proof (induction ds arbitrary: t)
  case Nil
  then show ?case by (simp add: settled_rank)
next
  case (Cons d ds)
  show ?case
  proof (cases "settled (task_phase t)")
    case True
    then have "phase_rank (task_phase (task_step d t)) = 0"
      by (simp add: settled_rank [symmetric])
    with Cons.IH show ?thesis by simp
  next
    case False
    with phase_rank_step [OF False, of d "task_call t" "task_user t"] Cons.prems
    have "phase_rank (task_phase (task_step d t)) \<le> length ds" by simp
    from Cons.IH [OF this] show ?thesis by simp
  qed
qed

lemma run_task_same_store:
  "task_phase (run_task [d, d, d] (start_task d0 c u)) = Settled (service_result d c u)"
proof (cases c)
  case CallGetHotels
  then show ?thesis
    by (simp add: service_result_def service_read_def js_bind_Inr_comp getHotels_gate entitlement_gate_def
        hotelsRepository_getHotels_def split: option.splits)
next
  case (CallGetHotelId h)
  then show ?thesis
    by (simp add: service_result_def service_read_def js_bind_Inr_comp getHotelId_gate entitlement_gate_def
        split: option.splits sum.splits)
qed

lemma run_task_three_stores:
  assumes "findWithAddressByUserId d1 u = findWithAddressByUserId d3 u"
    and "case findWithAddressByUserId d3 u of None \<Rightarrow> True
         | Some (e, _) \<Rightarrow> findTicketByEnrollmentId d2 (enrollment_id e) = findTicketByEnrollmentId d3 (enrollment_id e)"
  shows "run_task [d1, d2, d3] (start_task d0 c u) = run_task [d3, d3, d3] (start_task d0 c u)"
  using assms by (auto simp: task_step_def split: option.splits)

subsection \<open>What a call in flight computes\<close>

text \<open>
  A call whose three reads all see the same store computes exactly the atomic
  service on that store (\<^term>\<open>hotelsService_getHotels\<close>,
  \<^term>\<open>hotelsService_getHotelId\<close>), whatever the store was when it was issued: the
  step-by-step model and the atomic one agree when no write intervenes.
\<close>

theorem task_without_writes_is_service:
  "task_phase (run_task [d, d, d] (start_task d0 c u)) = Settled (service_result d c u)"
  by (rule run_task_same_store)

text \<open>
  Every call settles after at most three reads, whatever stores the reads see: no
  interleaving of writes keeps a call in flight longer.
\<close>

theorem task_settles_within_three_reads:
  assumes "3 \<le> length ds"
  shows "settled (task_phase (run_task ds (start_task d c u)))"
  using assms by (intro run_task_rank) simp

theorem task_settles_within_three_reads_witness:
  "settled (task_phase (run_task [empty_db, ex_db_cleaned, ex_db 1 PAID [] []]
     (start_task empty_db (CallGetHotelId JsNaN) 1)))"
  using task_settles_within_three_reads [of "[empty_db, ex_db_cleaned, ex_db 1 PAID [] []]"] by simp

text \<open>
  The reads of one call are not one snapshot. The eligible user of \<^term>\<open>ex_db\<close>
  asks for the hotels; the enrollment and the ticket are read, then \<open>cleanDb\<close> runs, then
  the hotels are read: the call resolves with the empty list. On the store before the
  write the service resolves with the hotel; on the store after it, it rejects (no
  enrollment). The call's result is the service's result on neither store.
\<close>

theorem write_between_reads_mixes_stores:
  "apply_write CleanDb (ex_db 1 PAID [ex_hotel] []) = Inr ex_db_cleaned \<and>
   task_phase (run_task [ex_db 1 PAID [ex_hotel] [], ex_db 1 PAID [ex_hotel] [], ex_db_cleaned]
     (start_task (ex_db 1 PAID [ex_hotel] []) CallGetHotels 1)) = Settled (Inr (VHotels [])) \<and>
   service_result (ex_db 1 PAID [ex_hotel] []) CallGetHotels 1 = Inr (VHotels [ex_hotel]) \<and>
   service_result ex_db_cleaned CallGetHotels 1 = Inl TypeError"
proof -
  have w: "apply_write CleanDb (ex_db 1 PAID [ex_hotel] []) = Inr ex_db_cleaned"
    by (simp add: ex_db_cleaned_def ex_db_def apply_write_simps)
  have r: "task_phase (run_task [ex_db 1 PAID [ex_hotel] [], ex_db 1 PAID [ex_hotel] [], ex_db_cleaned]
     (start_task (ex_db 1 PAID [ex_hotel] []) CallGetHotels 1)) = Settled (Inr (VHotels []))"
    by (simp add: ex_defs ex_db_cleaned_def findWithAddressByUserId_def findTicketByEnrollmentId_def
        service_read_def hotelsRepository_getHotels_def ticket_qualifies_def)
  have s1: "service_result (ex_db 1 PAID [ex_hotel] []) CallGetHotels 1 = Inr (VHotels [ex_hotel])"
    by (simp add: service_result_def getHotels_gate entitlement_gate_def ex_defs
        findWithAddressByUserId_def findTicketByEnrollmentId_def ticket_qualifies_def)
  have s2: "service_result ex_db_cleaned CallGetHotels 1 = Inl TypeError"
    by (simp add: service_result_def getHotels_gate entitlement_gate_def ex_db_cleaned_def ex_defs
        findWithAddressByUserId_def)
  from w r s1 s2 show ?thesis by blast
qed

text \<open>
  C16. The race the specification accepts (section 4.1) is confined to the user's own
  rows: when the enrollment the call reads is the same on the store of its first read as
  on the store of its last, and the ticket it reads is the same on the store of its
  second read as on the last, the call computes exactly the atomic service on the store
  of its last read, whatever else was written in between (hotels, rooms, other users).
\<close>

theorem task_linearizable_at_last_read:
  assumes "findWithAddressByUserId d1 u = findWithAddressByUserId d3 u"
    and "case findWithAddressByUserId d3 u of None \<Rightarrow> True
         | Some (e, _) \<Rightarrow> findTicketByEnrollmentId d2 (enrollment_id e) = findTicketByEnrollmentId d3 (enrollment_id e)"
  shows "task_phase (run_task [d1, d2, d3] (start_task d0 c u)) = Settled (service_result d3 c u)"
  using run_task_three_stores [OF assms] run_task_same_store [of d3 d0 c u] by simp

theorem task_linearizable_at_last_read_witness:
  "task_phase (run_task [ex_db 1 PAID [] [], ex_db 1 PAID [] [], ex_db 1 PAID [ex_hotel] []]
      (start_task (ex_db 1 PAID [] []) CallGetHotels 1)) =
   Settled (service_result (ex_db 1 PAID [ex_hotel] []) CallGetHotels 1)"
proof -
  have e: "findWithAddressByUserId (ex_db 1 PAID [] []) 1 = findWithAddressByUserId (ex_db 1 PAID [ex_hotel] []) 1"
    by (simp add: findWithAddressByUserId_def ex_defs)
  have t: "case findWithAddressByUserId (ex_db 1 PAID [ex_hotel] []) 1 of None \<Rightarrow> True
      | Some (e, _) \<Rightarrow> findTicketByEnrollmentId (ex_db 1 PAID [] []) (enrollment_id e) =
          findTicketByEnrollmentId (ex_db 1 PAID [ex_hotel] []) (enrollment_id e)"
    by (simp add: findWithAddressByUserId_def findTicketByEnrollmentId_def ex_defs)
  from task_linearizable_at_last_read [OF e t] show ?thesis .
qed

end
