(* ===== verification/AsyncServer.thy ===== *)
theory AsyncServer
  imports ServiceTasks Server
begin

text \<open>
  The application with its calls in flight. A handler of
  \<open>src/controllers/hotels-controller.ts\<close> calls the service without awaiting it and
  answers at once; the call goes on in the background, one read per turn of the event
  loop, and when it settles with a rejection nobody handles it. Any read may also fail
  (the database cannot be reached), which settles the call with that rejection. The state is the store,
  the responses sent, the calls in flight (\<^typ>\<open>task\<close>, from \<open>ServiceTasks\<close>) and the
  unhandled rejections. A step is a write to the store, a request (answered at once, and
  spawning the handler's service call when the middleware lets it through), the next
  read of one call in flight, the failure of that read, or the retirement of a settled
  call. Calls and writes interleave freely. The atomic model of \<open>Server\<close> is this model with each call run to
  completion right after its request: the theorems show that it is one of its runs, and
  that the calls in flight always drain by steps of the event loop alone.
\<close>

definition handler_call :: "route \<Rightarrow> service_call" where
  \<comment> \<open>\<open>hotelsService.getHotels(Number(userId))\<close>, \<open>hotelsService.getHotelId(Number(userId), Number(hotelId))\<close>\<close>
  "handler_call r =
     (case r of ListHotels \<Rightarrow> CallGetHotels | HotelById hotelId \<Rightarrow> CallGetHotelId (js_Number hotelId))"

definition spawned :: "auth_env \<Rightarrow> db \<Rightarrow> request \<Rightarrow> task list" where
  \<comment> \<open>the service call a request starts: one when a handler runs, none on a 401\<close>
  "spawned env d req =
     (case route_of (req_path req) of
        None \<Rightarrow> []
      | Some r \<Rightarrow>
          (case authenticateToken env d (req_authorization req) of
             Inl _ \<Rightarrow> []
           | Inr userId \<Rightarrow> [start_task d (handler_call r) userId]))"

record aserver =
  as_db :: db
  as_responses :: "response list"
  as_tasks :: "task list"
  as_unhandled :: "js_error list"

definition init_aserver :: aserver where
  "init_aserver = \<lparr>as_db = empty_db, as_responses = [], as_tasks = [], as_unhandled = []\<rparr>"

definition settle_log :: "js_error + service_value \<Rightarrow> js_error list" where
  \<comment> \<open>a rejected call leaves an unhandled rejection; a resolved one leaves nothing\<close>
  "settle_log r = (case r of Inl e \<Rightarrow> [e] | Inr _ \<Rightarrow> [])"

inductive astep :: "auth_env \<Rightarrow> aserver \<Rightarrow> aserver \<Rightarrow> bool" for env where
  awrite: "apply_write w (as_db s) = Inr d' \<Longrightarrow> astep env s (s\<lparr>as_db := d'\<rparr>)"
| arequest: "hotelsRouter env (as_db s) req = Some out \<Longrightarrow>
    astep env s (s\<lparr>as_responses := as_responses s @ [out_response out],
                  as_tasks := as_tasks s @ spawned env (as_db s) req\<rparr>)"
| aread: "i < length (as_tasks s) \<Longrightarrow> \<not> settled (task_phase (as_tasks s ! i)) \<Longrightarrow>
    astep env s (s\<lparr>as_tasks := (as_tasks s)[i := task_step (as_db s) (as_tasks s ! i)]\<rparr>)"
| afail: "i < length (as_tasks s) \<Longrightarrow> \<not> settled (task_phase (as_tasks s ! i)) \<Longrightarrow>
    astep env s (s\<lparr>as_tasks := (as_tasks s)[i := task_fail (as_tasks s ! i)]\<rparr>)"
| asettle: "i < length (as_tasks s) \<Longrightarrow> task_phase (as_tasks s ! i) = Settled r \<Longrightarrow>
    astep env s (s\<lparr>as_tasks := take i (as_tasks s) @ drop (Suc i) (as_tasks s),
                  as_unhandled := as_unhandled s @ settle_log r\<rparr>)"

definition task_weight :: "task list \<Rightarrow> nat" where
  \<comment> \<open>the reads and retirements the calls in flight still need\<close>
  "task_weight ts = sum_list (map (\<lambda>t. Suc (phase_rank (task_phase t))) ts)"

definition abs_server :: "aserver \<Rightarrow> server" where
  \<comment> \<open>the state of the atomic model \<open>Server\<close> that an async state with no call in flight is\<close>
  "abs_server s = \<lparr>srv_db = as_db s, srv_responses = as_responses s, srv_unhandled = as_unhandled s\<rparr>"

subsection \<open>Draining the calls in flight\<close>

lemma task_weight_Cons [simp]: "task_weight (t # ts) = Suc (phase_rank (task_phase t)) + task_weight ts"
  by (simp add: task_weight_def)

lemma astep_read_head:
  assumes "as_tasks s = t # ts" and "\<not> settled (task_phase t)"
  shows "astep env s (s\<lparr>as_tasks := task_step (as_db s) t # ts\<rparr>)"
  using aread [of 0 s env] assms by simp

lemma astep_settle_head:
  assumes "as_tasks s = t # ts" and "task_phase t = Settled r"
  shows "astep env s (s\<lparr>as_tasks := ts, as_unhandled := as_unhandled s @ settle_log r\<rparr>)"
  using asettle [of 0 s r env] assms by simp

text \<open>
  From every state, the calls in flight can all settle and be retired by steps of
  the event loop alone, without a write and without a request, leaving the store and the
  responses as they are: no call is ever stuck.
\<close>

theorem calls_in_flight_drain:
  "\<exists>t. (astep env)\<^sup>*\<^sup>* s t \<and> as_tasks t = [] \<and> as_db t = as_db s \<and> as_responses t = as_responses s"
proof (induction "task_weight (as_tasks s)" arbitrary: s rule: less_induct)
  case less
  show ?case
  proof (cases "as_tasks s")
    case Nil
    then show ?thesis by blast
  next
    case (Cons t0 ts)
    show ?thesis
    proof (cases "settled (task_phase t0)")
      case True
      then obtain r where r: "task_phase t0 = Settled r" by (cases "task_phase t0") auto
      let ?s' = "s\<lparr>as_tasks := ts, as_unhandled := as_unhandled s @ settle_log r\<rparr>"
      have st: "astep env s ?s'" by (rule astep_settle_head [OF Cons r])
      have "task_weight (as_tasks ?s') < task_weight (as_tasks s)" using Cons by simp
      from less [OF this] obtain t where "(astep env)\<^sup>*\<^sup>* ?s' t" and "as_tasks t = []"
        and "as_db t = as_db s" and "as_responses t = as_responses s" by auto
      with st show ?thesis by (blast intro: converse_rtranclp_into_rtranclp)
    next
      case False
      let ?s' = "s\<lparr>as_tasks := task_step (as_db s) t0 # ts\<rparr>"
      have st: "astep env s ?s'" by (rule astep_read_head [OF Cons False])
      have "task_weight (as_tasks ?s') < task_weight (as_tasks s)"
        using Cons phase_rank_step [OF False, of "as_db s" "task_call t0" "task_user t0"] by simp
      from less [OF this] obtain t where "(astep env)\<^sup>*\<^sup>* ?s' t" and "as_tasks t = []"
        and "as_db t = as_db s" and "as_responses t = as_responses s" by auto
      with st show ?thesis by (blast intro: converse_rtranclp_into_rtranclp)
    qed
  qed
qed

subsection \<open>The atomic model is a run of this one\<close>

lemma task_step_settled: "settled (task_phase t) \<Longrightarrow> task_step d t = t"
  by (simp add: task_step_def)

lemma reads_on_head:
  "(astep env)\<^sup>*\<^sup>* s (s\<lparr>as_tasks := run_task (replicate n (as_db s)) t # ts\<rparr>)"
  if "as_tasks s = t # ts"
  using that
proof (induction n arbitrary: s t)
  case 0
  then have "s\<lparr>as_tasks := t # ts\<rparr> = s" by simp
  then show ?case by (metis replicate_0 run_task.simps(1) rtranclp.rtrancl_refl)
next
  case (Suc n)
  show ?case
  proof (cases "settled (task_phase t)")
    case True
    with Suc.IH [OF Suc.prems] show ?thesis by (simp add: task_step_settled)
  next
    case False
    let ?s' = "s\<lparr>as_tasks := task_step (as_db s) t # ts\<rparr>"
    have st: "astep env s ?s'" by (rule astep_read_head [OF Suc.prems False])
    from Suc.IH [of ?s' "task_step (as_db s) t"] have "(astep env)\<^sup>*\<^sup>* ?s'
      (?s'\<lparr>as_tasks := run_task (replicate n (as_db s)) (task_step (as_db s) t) # ts\<rparr>)" by simp
    with st show ?thesis by (simp add: converse_rtranclp_into_rtranclp)
  qed
qed

lemma router_spawn:
  assumes "hotelsRouter env d req = Some out"
  shows "(spawned env d req = [] \<and> out_unhandled out = None) \<or>
         (\<exists>c u. spawned env d req = [start_task d c u] \<and>
            (case out_unhandled out of None \<Rightarrow> [] | Some e \<Rightarrow> [e]) = settle_log (service_result d c u))"
proof -
  from assms obtain r where r: "route_of (req_path req) = Some r"
    by (auto simp: hotelsRouter_def split: option.splits)
  show ?thesis
  proof (cases "authenticateToken env d (req_authorization req)")
    case (Inl a)
    with assms r show ?thesis
      by (cases a) (auto simp: hotelsRouter_def spawned_def unauthorized_outcome_def)
  next
    case (Inr u)
    with r have "spawned env d req = [start_task d (handler_call r) u]"
      by (simp add: spawned_def)
    moreover have "(case out_unhandled out of None \<Rightarrow> [] | Some e \<Rightarrow> [e]) =
        settle_log (service_result d (handler_call r) u)"
      using assms r Inr
      by (cases r) (auto simp: hotelsRouter_def getHotels_eval getHotelId_eval handler_call_def
          service_result_def settle_log_def split: sum.splits)
    ultimately show ?thesis by blast
  qed
qed

lemma abs_server_init [simp]: "abs_server init_aserver = init_server"
  and tasks_init [simp]: "as_tasks init_aserver = []"
  by (simp_all add: abs_server_def init_aserver_def init_server_def)

lemma atomic_step_is_async_run:
  assumes "as_tasks s = []" and "server_step env (abs_server s) t"
  shows "\<exists>s'. (astep env)\<^sup>*\<^sup>* s s' \<and> as_tasks s' = [] \<and> abs_server s' = t"
  using assms(2)
proof cases
  case (write_step w d')
  then have "astep env s (s\<lparr>as_db := d'\<rparr>)" by (intro awrite) (simp add: abs_server_def)
  with write_step assms(1) show ?thesis
    by (intro exI [of _ "s\<lparr>as_db := d'\<rparr>"]) (auto simp: abs_server_def)
next
  case (request_step req)
  then obtain out where out: "hotelsRouter env (as_db s) req = Some out"
    and t: "t = (abs_server s)\<lparr>srv_responses := as_responses s @ [out_response out],
      srv_unhandled := as_unhandled s @ (case out_unhandled out of None \<Rightarrow> [] | Some e \<Rightarrow> [e])\<rparr>"
    by (auto elim!: serve_Some simp: abs_server_def)
  let ?s1 = "s\<lparr>as_responses := as_responses s @ [out_response out],
                as_tasks := spawned env (as_db s) req\<rparr>"
  have s1: "astep env s ?s1" using arequest [OF out] assms(1) by simp
  from router_spawn [OF out] show ?thesis
  proof
    assume "spawned env (as_db s) req = [] \<and> out_unhandled out = None"
    with s1 t show ?thesis by (intro exI [of _ ?s1]) (auto simp: abs_server_def)
  next
    assume "\<exists>c u. spawned env (as_db s) req = [start_task (as_db s) c u] \<and>
      (case out_unhandled out of None \<Rightarrow> [] | Some e \<Rightarrow> [e]) = settle_log (service_result (as_db s) c u)"
    then obtain c u where sp: "spawned env (as_db s) req = [start_task (as_db s) c u]"
      and log: "(case out_unhandled out of None \<Rightarrow> [] | Some e \<Rightarrow> [e]) =
        settle_log (service_result (as_db s) c u)" by blast
    let ?tk = "run_task (replicate 3 (as_db s)) (start_task (as_db s) c u)"
    let ?s2 = "?s1\<lparr>as_tasks := [?tk]\<rparr>"
    have r2: "(astep env)\<^sup>*\<^sup>* ?s1 ?s2" using reads_on_head [of ?s1 _ "[]" env 3] sp by simp
    have ph: "task_phase ?tk = Settled (service_result (as_db s) c u)"
      using run_task_same_store [of "as_db s" "as_db s" c u] by (simp add: numeral_3_eq_3)
    let ?s3 = "?s2\<lparr>as_tasks := [], as_unhandled := as_unhandled ?s2 @ settle_log (service_result (as_db s) c u)\<rparr>"
    have s3: "astep env ?s2 ?s3" using astep_settle_head [of ?s2 ?tk "[]" _ env, OF _ ph] by simp
    from s1 r2 s3 have "(astep env)\<^sup>*\<^sup>* s ?s3"
      by (meson converse_rtranclp_into_rtranclp rtranclp.rtrancl_into_rtrancl)
    moreover have "abs_server ?s3 = t" using t log by (simp add: abs_server_def)
    ultimately show ?thesis by (intro exI [of _ ?s3]) simp
  qed
qed

lemma atomic_reachable_async:
  "reachable env t \<Longrightarrow> \<exists>s. (astep env)\<^sup>*\<^sup>* init_aserver s \<and> as_tasks s = [] \<and> abs_server s = t"
proof (induction rule: reachable.induct)
  case init
  show ?case by (intro exI [of _ init_aserver]) simp
next
  case (step t t')
  from step.IH obtain s where r: "(astep env)\<^sup>*\<^sup>* init_aserver s" and "as_tasks s = []"
    and a: "abs_server s = t" by blast
  with atomic_step_is_async_run [of s env t'] step.hyps(2) obtain s' where
    "(astep env)\<^sup>*\<^sup>* s s'" "as_tasks s' = []" "abs_server s' = t'" by blast
  with r show ?case by (blast intro: rtranclp_trans)
qed

text \<open>
  Every state the atomic model \<open>Server\<close> reaches is, with no call in flight, a
  state this model reaches: running each call to completion right after its request is
  one of the interleavings, so every theorem about the runs of this model holds of the
  atomic runs too.
\<close>

theorem atomic_runs_are_async_runs:
  assumes "reachable env t"
  shows "\<exists>s. (astep env)\<^sup>*\<^sup>* init_aserver s \<and> as_tasks s = [] \<and> abs_server s = t"
  using assms by (rule atomic_reachable_async)

theorem atomic_runs_are_async_runs_witness:
  "\<exists>s. (astep ex_env)\<^sup>*\<^sup>* init_aserver s \<and> as_tasks s = [] \<and> abs_server s = ex_run_state"
  by (rule atomic_runs_are_async_runs [OF ex_run_reachable])

end
