(* ===== verification/Spec2Isabelle.thy ===== *)
theory Spec2Isabelle
  imports TestScenarios AsyncServer
begin

text \<open>
  Verification development of the hotel browsing API of the Drivent back end
  (\<open>GET /hotels\<close> and \<open>GET /hotels/:hotelId\<close>).

  \<^bold>\<open>The program.\<close> A request passes through four layers, each a file under \<open>src/src/\<close>:
  \<^item> \<open>routers/hotels-router.ts\<close> matches the path and runs the authentication
    middleware \<open>authenticateToken\<close> before each handler;
  \<^item> \<open>controllers/hotels-controller.ts\<close>, handlers \<open>getHotels\<close> and \<open>getHotelId\<close>, calls
    the service and sends its result with 200, or 404 from a \<open>catch\<close>;
  \<^item> \<open>services/hotels-service/index.ts\<close>, \<open>getHotels\<close> and \<open>getHotelId\<close>, checks that the
    user has an enrollment and a paid, in-person ticket that includes the hotel
    (\<open>TypeError\<close> without enrollment, \<open>notFoundError\<close> for an unsuitable ticket), then
    reads the hotels;
  \<^item> \<open>repositories/hotels-repository/index.ts\<close>, \<open>getHotels\<close> and \<open>getRoomsHotelId\<close>, two
    Prisma reads.
  The store is shared by all requests; the program only reads it, the test fixtures
  and payment processing write it.

  \<^bold>\<open>Theories and what they model.\<close>
  The module objects \<open>hotelsService\<close> and \<open>hotelsRepository\<close> are records of their two
  operations, and the controller and the service call through them, as the code does.
  \<^item> \<open>Prelude\<close>: the type names (\<open>js_id\<close>, \<open>timestamp\<close>), the rule collections
    \<open>model_defs\<close> and \<open>query_simps\<close>, \<open>String.prototype.split\<close> and array indexing
    (\<open>js_split\<close>, \<open>js_index\<close>), and the facts about \<open>List.find\<close> (Prisma's
    \<open>findFirst\<close>) every lookup proof uses.
  \<^item> \<open>Store\<close>: one record per Prisma model, a table as a list in store order, the
    \<open>db\<close> record with the id sequences and a clock, and the schema's invariant \<open>wf_db\<close>:
    ids positive, unique and below their sequence, every sequence within the INT4 range
    (\<open>int4_max\<close>, \<open>in_int4\<close>, read as a signed 32-bit word in \<open>in_int4_sint\<close>), one
    enrollment per user, every foreign key resolves.
  \<^item> \<open>JsRuntime\<close>: a promise as its settlement (\<open>async_return\<close>, \<open>resolved\<close>,
    \<open>await\<close>, \<open>rejection\<close>), truthiness of a promise and of a nullable value, the
    errors \<open>js_error\<close> (Prisma's validation, range and connection errors among them), the
    JSON values and \<open>JSON.stringify\<close> of a promise (\<open>{}\<close>).
  \<^item> \<open>Lookups\<close>: \<open>findWithAddressByUserId\<close> and \<open>findTicketByEnrollmentId\<close>, whose
    repositories are not in the sources (modelled from the specification).
  \<^item> \<open>HotelsRepository\<close>: \<open>hotelsRepository_getHotels\<close>, \<open>hotelsRepository_getRoomsHotelId\<close>
    (the \<open>where\<close>/\<open>include\<close> query; a non-integer id is Prisma's validation error, an
    integer outside INT4 its range error).
  \<^item> \<open>HotelsService\<close>: \<open>hotelsService_getHotels\<close>, \<open>hotelsService_getHotelId\<close> line by line
    (the un-awaited enrollment promise, its always-true test, the ticket test), and the
    specification's entitlement (\<open>entitlement_gate\<close>, \<open>eligible\<close>, \<open>ticket_of_user\<close>).
  \<^item> \<open>JsNumber\<close>: \<open>Number(s)\<close> on a string (\<open>js_Number\<close>: the ECMAScript grammar, then
    rounding to the nearest double, \<open>double_of\<close>) and \<open>toString\<close> of an integer
    (\<open>js_int_toString\<close>, JavaScript's on the safe integers).
  \<^item> \<open>HotelsController\<close>: the handlers \<open>getHotels\<close>, \<open>getHotelId\<close>, whose outcome is the
    response, the log of the \<open>catch\<close> and the rejection nobody handles; the responses
    the specification asks for (\<open>spec_hotels_response\<close>, \<open>spec_hotel_response\<close>).
  \<^item> \<open>Auth\<close>: \<open>authenticateToken\<close> (not in the sources; from the specification and the
    401 tests), with the JWT signature check a parameter \<open>jwt_verify\<close>.
  \<^item> \<open>HotelsRouter\<close>: \<open>route_of\<close> (Express path matching) and \<open>hotelsRouter\<close>.
  \<^item> \<open>StoreWrites\<close>: Prisma \<open>create\<close> of every model and \<open>cleanDb\<close>, as the fixtures use
    them, and the ticket status update of payment processing (\<open>apply_write\<close>, the INT4
    sequence check, then \<open>store_write\<close>; \<open>run_writes\<close>), with foreign-key, unique and
    record-exists checks; every write keeps \<open>wf_db\<close>.
  \<^item> \<open>Server\<close>: the application as an inductive step relation \<open>server_step\<close> over the
    store, the responses sent and the unhandled rejections; a step is a write or a
    request; \<open>reachable\<close> is every interleaving from the empty store, and every reachable
    store is well formed.
  \<^item> \<open>ServiceTasks\<close>: a service call in flight (\<open>task\<close>), one store read per \<open>await\<close>
    (\<open>start_task\<close>, \<open>phase_step\<close>, \<open>task_step\<close>), so that writes can fall between the
    reads of one call, and a read that fails (\<open>task_fail\<close>).
  \<^item> \<open>AsyncServer\<close>: the event loop (\<open>astep\<close>): writes, requests answered at once and
    spawning their service call (\<open>spawned\<close>), single reads of calls in flight, failed
    reads, and the retirement of settled calls, whose rejections nobody handles. The
    calls in flight always drain, and every run of \<open>Server\<close> is a run of the event loop.
  \<^item> \<open>Examples\<close>: concrete stores (the tests' fixtures) on which the witnesses run.
  \<^item> \<open>TestScenarios\<close>: the fourteen integration tests of \<open>hotels.test.ts\<close> as runs of
    the application model (arrange writes through \<open>run_writes\<close>, one request through
    \<open>serve\<close>), each with the responses the code sends and the specification's response:
    the six 401 tests pass; in the eight others the code sends \<open>200 {}\<close>, and the tests'
    402 matches neither the code nor the specification.

  \<^bold>\<open>What is proved.\<close> The claims C1 to C17:
  \<^item> Refinement of the service (C1, C2): on a well-formed store each operation rejects
    exactly when the specification's entitlement does, with the error the code raises,
    and otherwise returns the repository's answer.
  \<^item> The controller (C3, C4): every handled request is answered 200 with \<open>{}\<close>, never
    with data and never 404, and the \<open>catch\<close> never logs; a service rejection is never
    handled, in either handler.
  \<^item> The router (C5, C17): an unauthenticated request gets 401 whatever the store holds
    besides the sessions; an authenticated \<open>GET /hotels/<id>\<close> with a safe integer id
    reaches \<open>getHotelId\<close> and the service receives that integer.
  \<^item> Error paths of the service (C6 to C10, C14): no enrollment (\<open>TypeError\<close>), remote
    ticket, ticket without hotel, reserved ticket, no ticket (\<open>NotFoundError\<close>), \<open>NaN\<close>
    id (Prisma's validation error).
  \<^item> Functional behaviour (C11 to C13, C15): the gate shared by both operations for
    every INT4 id; a hotel with exactly its rooms; \<open>null\<close> for an absent INT4 id and the
    range error outside INT4; on every well-formed store the first ticket of the
    enrollment in table order decides, whatever tickets follow it.
  \<^item> Concurrency (C16): a call's three reads are separate awaits; when the user's
    enrollment and ticket are unchanged until its last read, it computes the atomic
    service on the store of that last read, whatever else is written in between.

  \<^bold>\<open>Bounds.\<close> No fuel is used: every function of the model is total (structural
  recursion, or \<open>bitlen\<close> on halving), and the event loop's termination is the measure
  \<open>phase_rank\<close> (three reads per call) summed over the calls in flight
  (\<open>task_weight\<close>). The INT4 bound \<open>2^31 - 1\<close> of the ids comes from the schema (Prisma
  \<open>Int\<close> is Postgres \<open>integer\<close>, whose sequences stop there); the bound \<open>2^53\<close> of C17 is
  the range of integers a double holds exactly, where \<open>String\<close> writes every digit and
  \<open>Number\<close> reads it back unrounded; every INT4 id is far inside it.

  \<^bold>\<open>Not modelled.\<close> The Express and Prisma engines themselves (only the behaviour the
  code relies on), percent-decoding of path parameters, the Unicode white space that
  \<open>Number\<close> also trims, the payment and session management code of the wider application
  (only the tables the hotel API reads, and the ticket status update that payment
  processing makes), and the JWT signature algorithm (a parameter). After an unhandled
  rejection the model keeps serving; a Node process with the default
  \<open>--unhandled-rejections=throw\<close> (Node 15 and later) terminates instead, so the runs of
  the model include the runs of such a process as prefixes. The event loop is free
  interleaving: the order of microtasks within one turn is not modelled and no fairness
  is assumed. The import lines of the four source files and the Express \<open>Router()\<close>
  object itself are not modelled: they carry no behaviour beyond what the definitions
  above translate.
\<close>

end
